theory Spec2Isabelle
  imports Main
begin

section \<open>Data model\<close>

text \<open>
  Money is \<^verbatim>\<open>Decimal\<close> with two fractional digits (\<^verbatim>\<open>MoneyDecimal\<close>), held here as a
  whole number of cents: \<^verbatim>\<open>Decimal('0.00')\<close> is \<open>0\<close>, \<^verbatim>\<open>Decimal('100.50')\<close> is \<open>10050\<close>.
  A \<^verbatim>\<open>datetime\<close> is a count of microseconds.  Primary keys are natural numbers; the
  \<^verbatim>\<open>id\<close> attribute of a \<^verbatim>\<open>Transaction\<close> or \<^verbatim>\<open>QRCode\<close> object is \<^verbatim>\<open>None\<close> until the row is
  inserted.  The columns \<^verbatim>\<open>timestamp\<close>, \<^verbatim>\<open>created_at\<close> and \<^verbatim>\<open>password\<close> are read by none of
  the payment handlers' decisions and are left out of the rows.
\<close>

type_synonym money = int
type_synonym datetime = int

datatype TransactionType = TOPUP | WITHDRAWAL | TRANSFER_SENT | TRANSFER_RECEIVED | QR_PAYMENT

datatype QRType = REQUEST_PAYMENT | SEND_PAYMENT

fun QRType_value :: "QRType \<Rightarrow> string" where
  "QRType_value REQUEST_PAYMENT = ''request_payment''"
| "QRType_value SEND_PAYMENT = ''send_payment''"

record User =
  user_pk :: nat
  username :: string

record Transaction =
  tx_id :: "nat option"
  tx_amount :: money
  transaction_type :: TransactionType
  tx_description :: "string option"
  tx_user_id :: nat
  reference_user_id :: "nat option"
  tx_qr_id :: "nat option"

record QRCode =
  qr_pk :: "nat option"
  qr_id :: string
  qr_type :: QRType
  max_use_count :: "int option"
  qr_amount :: "money option"
  expire :: "datetime option"
  qr_user_id :: nat

text \<open>
  The committed state of the store: the three tables in insertion order and the two
  sequences the \<^verbatim>\<open>id\<close> columns draw from.
\<close>

record database =
  users :: "User list"
  transactions :: "Transaction list"
  qrcodes :: "QRCode list"
  transaction_seq :: nat
  qrcode_seq :: nat

text \<open>
  The exceptions of \<^verbatim>\<open>app/exceptions/payment.py\<close> (all HTTP 400, told apart by class
  and \<^verbatim>\<open>detail\<close>), \<^verbatim>\<open>UserNotFoundException\<close>, the two Python errors a handler
  can run into on a row with a missing owner or a NULL \<^verbatim>\<open>max_use_count\<close>, and
  SQLAlchemy's \<^verbatim>\<open>MissingGreenlet\<close>, raised when an attribute of an expired object is read
  under an \<^verbatim>\<open>AsyncSession\<close>.
\<close>

datatype error =
    TransactionNotFoundException string
  | InsufficientBalanceException string
  | InvalidAmountException string
  | UserNotFoundException string
  | AttributeError
  | TypeError
  | MissingGreenlet

record PaymentRequest =
  req_amount :: money

record TransferRequest = PaymentRequest +
  recipient_username :: string
  req_description :: string

record PaymentCollectionRequest = PaymentRequest +
  max_user_count :: int
  req_expire :: "datetime option"

record PaymentResponse =
  message :: string
  resp_amount :: string
  new_balance :: string
  transaction_id :: "nat option"

record QRCodeResponse =
  res_qr_id :: string
  res_qr_type :: string
  res_amount :: "money option"
  res_expire :: "datetime option"

section \<open>Formatting\<close>

text \<open>\<^verbatim>\<open>f"{amount:.2f}"\<close> on a two-place decimal.\<close>

definition digit :: "nat \<Rightarrow> char" where
  "digit d = ''0123456789'' ! d"

function str_nat :: "nat \<Rightarrow> string" where
  "str_nat n = (if n < 10 then [digit n] else str_nat (n div 10) @ [digit (n mod 10)])"
  by pat_completeness auto
termination
  by (relation "measure (\<lambda>n. n)") auto

declare str_nat.simps [simp del]

definition format_2f :: "money \<Rightarrow> string" where
  "format_2f a =
     (let c = nat \<bar>a\<bar> in
      (if a < 0 then ''-'' else []) @ str_nat (c div 100) @ ''.'' @
      [digit (c mod 100 div 10), digit (c mod 10)])"

section \<open>SQL with NULL\<close>

text \<open>
  A nullable column is an \<open>option\<close>; a comparison with NULL is unknown (\<open>None\<close>), and a
  \<^verbatim>\<open>WHERE\<close> clause keeps a row only when its condition is true.
\<close>

definition sql_eq :: "'a option \<Rightarrow> 'a option \<Rightarrow> bool option" where
  "sql_eq a b = (case (a, b) of (Some x, Some y) \<Rightarrow> Some (x = y) | _ \<Rightarrow> None)"

definition sql_not :: "bool option \<Rightarrow> bool option" where
  "sql_not b = map_option Not b"

definition sql_in :: "'a option \<Rightarrow> 'a option list \<Rightarrow> bool option" where
  "sql_in a bs =
     (if Some True \<in> set (map (sql_eq a) bs) then Some True
      else if None \<in> set (map (sql_eq a) bs) then None
      else Some False)"

definition sql_where :: "bool option \<Rightarrow> bool" where
  "sql_where b = (b = Some True)"

definition sql_sum :: "int list \<Rightarrow> int option" where
  "sql_sum xs = (case xs of [] \<Rightarrow> None | _ \<Rightarrow> Some (sum_list xs))"

definition coalesce :: "'a option \<Rightarrow> 'a \<Rightarrow> 'a" where
  "coalesce a d = (case a of None \<Rightarrow> d | Some x \<Rightarrow> x)"

section \<open>Model methods\<close>

text \<open>\<^verbatim>\<open>User.total_balance\<close>: the aggregate, then Python's \<^verbatim>\<open>or Decimal('0.00')\<close>.\<close>

definition total_balance :: "database \<Rightarrow> User \<Rightarrow> money" where
  "total_balance db self =
     (let total = coalesce (sql_sum (map tx_amount
                    (filter (\<lambda>t. tx_user_id t = user_pk self) (transactions db)))) 0
      in if total \<noteq> 0 then total else 0)"

definition get_by_username :: "database \<Rightarrow> string \<Rightarrow> User option" where
  "get_by_username db name = find (\<lambda>u. username u = name) (users db)"

text \<open>
  \<^verbatim>\<open>QRCode.get_by_qr_id\<close> and the \<^verbatim>\<open>user\<close> relationship it loads with the row
  (\<^verbatim>\<open>QRCode.user_id == User.id\<close>).
\<close>

definition get_by_qr_id :: "database \<Rightarrow> string \<Rightarrow> QRCode option" where
  "get_by_qr_id db token = find (\<lambda>q. qr_id q = token) (qrcodes db)"

definition qrcode_user :: "database \<Rightarrow> QRCode \<Rightarrow> User option" where
  "qrcode_user db self = find (\<lambda>u. user_pk u = qr_user_id self) (users db)"

text \<open>
  \<^verbatim>\<open>SELECT COUNT(*) FROM transaction WHERE qr_id = :id AND user_id =
  (SELECT user_id FROM qrcode WHERE id = :id LIMIT 1)\<close>; the Python \<^verbatim>\<open>cnt or 0\<close> leaves a
  count as it is.
\<close>

definition current_use_count :: "database \<Rightarrow> QRCode \<Rightarrow> int" where
  "current_use_count db self =
     (let owner = map_option qr_user_id
                    (find (\<lambda>q. sql_where (sql_eq (qr_pk q) (qr_pk self))) (qrcodes db));
          cnt = int (length (filter
                  (\<lambda>t. sql_where (sql_eq (tx_qr_id t) (qr_pk self)) \<and>
                       sql_where (sql_eq (Some (tx_user_id t)) owner))
                  (transactions db)))
      in if cnt \<noteq> 0 then cnt else 0)"

definition is_exceed_limit :: "database \<Rightarrow> QRCode \<Rightarrow> error + bool" where
  "is_exceed_limit db self =
     (let current_count = current_use_count db self in
      case max_use_count self of
        None \<Rightarrow> Inl TypeError
      | Some m \<Rightarrow> Inr (current_count \<ge> m))"

definition is_expired :: "datetime \<Rightarrow> QRCode \<Rightarrow> bool" where
  "is_expired now self = (case expire self of None \<Rightarrow> False | Some e \<Rightarrow> now > e)"

definition can_be_used :: "datetime \<Rightarrow> QRCode \<Rightarrow> bool" where
  "can_be_used now self = (\<not> is_expired now self)"

text \<open>
  \<^verbatim>\<open>QRCode.clean_unused_send_qrcodes\<close>:
  \<^verbatim>\<open>DELETE FROM qrcode WHERE qr_type = 'SEND_PAYMENT' AND id NOT IN (SELECT qr_id FROM
  transaction)\<close>, committed at once.  It returns the number of rows deleted.
\<close>

definition unused_send_qrcode :: "database \<Rightarrow> QRCode \<Rightarrow> bool" where
  "unused_send_qrcode db q =
     (qr_type q = SEND_PAYMENT \<and>
      sql_where (sql_not (sql_in (qr_pk q) (map tx_qr_id (transactions db)))))"

definition clean_unused_send_qrcodes :: "database \<Rightarrow> nat \<times> database" where
  "clean_unused_send_qrcodes db =
     (length (filter (unused_send_qrcode db) (qrcodes db)),
      db\<lparr>qrcodes := filter (\<lambda>q. \<not> unused_send_qrcode db q) (qrcodes db)\<rparr>)"

section \<open>The session\<close>

text \<open>
  A request's session starts with nothing pending.  \<^verbatim>\<open>session.add\<close> queues an object and
  \<^verbatim>\<open>session.commit\<close> inserts every queued object in one database transaction, in the
  order added, each \<^verbatim>\<open>id\<close> drawn from the table's sequence; the refreshed objects come
  back with their ids.  The handlers raise only before their first \<^verbatim>\<open>session.add\<close>, so
  \<^verbatim>\<open>session.rollback\<close> finds nothing flushed and leaves the store as it was.
\<close>

fun commit_transactions :: "database \<Rightarrow> Transaction list \<Rightarrow> database \<times> Transaction list" where
  "commit_transactions db [] = (db, [])"
| "commit_transactions db (t # ts) =
     (let i = Suc (transaction_seq db);
          t' = t\<lparr>tx_id := Some i\<rparr>;
          (db', ts') = commit_transactions
                         (db\<lparr>transactions := transactions db @ [t'], transaction_seq := i\<rparr>) ts
      in (db', t' # ts'))"

definition commit_qrcode :: "database \<Rightarrow> QRCode \<Rightarrow> database \<times> QRCode" where
  "commit_qrcode db q =
     (let i = Suc (qrcode_seq db);
          q' = q\<lparr>qr_pk := Some i\<rparr>
      in (db\<lparr>qrcodes := qrcodes db @ [q'], qrcode_seq := i\<rparr>, q'))"

definition rollback :: "database \<Rightarrow> database" where
  "rollback db = db"

text \<open>
  \<^verbatim>\<open>session.rollback\<close> also expires every object the session holds, \<^verbatim>\<open>current_user\<close> among
  them (after a commit, which expires them too, the handlers \<^verbatim>\<open>session.refresh(current_user)\<close>
  before they read it).  An attribute of an expired object is loaded when it is read, which
  an \<^verbatim>\<open>AsyncSession\<close> cannot do from plain attribute access: the read raises
  \<^verbatim>\<open>MissingGreenlet\<close>.
\<close>

datatype 'a session_object = Loaded 'a | Expired

definition after_rollback :: "'a \<Rightarrow> 'a session_object" where
  "after_rollback obj = Expired"

definition getattr :: "('a \<Rightarrow> 'b) \<Rightarrow> 'a session_object \<Rightarrow> error + 'b" where
  "getattr f obj = (case obj of Loaded x \<Rightarrow> Inr (f x) | Expired \<Rightarrow> Inl MissingGreenlet)"

section \<open>Handlers\<close>

text \<open>
  Each handler is a \<^verbatim>\<open>try\<close> body and an \<^verbatim>\<open>except Exception\<close> clause.  The body returns the
  response and the committed store, or the exception it raised; the clause rolls back
  and logs, and its log line reads \<^verbatim>\<open>current_user.username\<close>.  The handlers take the
  store where the source takes the session, and
  \<^verbatim>\<open>datetime.now()\<close> and \<^verbatim>\<open>uuid4()\<close> as arguments.
\<close>

definition apostrophe :: string where
  "apostrophe = [CHR 0x27]"

definition topup_try :: "database \<Rightarrow> 'a PaymentRequest_scheme \<Rightarrow> User \<Rightarrow> error + PaymentResponse \<times> database" where
  "topup_try db payment current_user =
     (let amount = req_amount payment in
      if amount \<le> 0 then Inl (InvalidAmountException ''Top-up amount must be greater than zero'')
      else
        let transaction_record = \<lparr>tx_id = None, tx_amount = amount, transaction_type = TOPUP,
              tx_description = Some (''Top-up of $'' @ format_2f amount),
              tx_user_id = user_pk current_user, reference_user_id = None, tx_qr_id = None\<rparr>;
            (db', saved) = commit_transactions db [transaction_record]
        in Inr (\<lparr>message = ''Top-up processed successfully'',
                 resp_amount = format_2f amount,
                 new_balance = format_2f (total_balance db' current_user),
                 transaction_id = tx_id (hd saved)\<rparr>, db'))"

text \<open>
  The \<^verbatim>\<open>except\<close> clause of \<^verbatim>\<open>topup\<close> rolls back and then logs: the log line reads the
  username of the user the rollback has just expired, and what that read raises leaves
  the handler.  The clause ends after the log line, with no \<^verbatim>\<open>raise\<close>: past it the
  function would fall off its end and return \<^verbatim>\<open>None\<close>.
\<close>

definition topup :: "database \<Rightarrow> 'a PaymentRequest_scheme \<Rightarrow> User \<Rightarrow> (error + PaymentResponse option) \<times> database" where
  "topup db payment current_user =
     (case topup_try db payment current_user of
        Inl e \<Rightarrow>
          (let db1 = rollback db;
               user1 = after_rollback current_user
           in case getattr username user1 of
                Inl e' \<Rightarrow> (Inl e', db1)
              | Inr name \<Rightarrow> (Inr None, db1))
      | Inr (response, db') \<Rightarrow> (Inr (Some response), db'))"

definition withdraw_try :: "database \<Rightarrow> 'a PaymentRequest_scheme \<Rightarrow> User \<Rightarrow> error + PaymentResponse \<times> database" where
  "withdraw_try db payment current_user =
     (let amount = req_amount payment in
      if amount \<le> 0 then Inl (InvalidAmountException ''Withdrawal amount must be greater than zero'')
      else
        let balance = total_balance db current_user in
        if balance \<le> 0 then Inl (InsufficientBalanceException ''No balance available for withdrawal'')
        else if amount > balance then
          Inl (InsufficientBalanceException (''Withdrawal amount $'' @ format_2f amount @
                 '' exceeds available balance $'' @ format_2f balance))
        else
          let transaction_record = \<lparr>tx_id = None, tx_amount = - amount,
                transaction_type = WITHDRAWAL,
                tx_description = Some (''Withdrawal of $'' @ format_2f amount),
                tx_user_id = user_pk current_user, reference_user_id = None, tx_qr_id = None\<rparr>;
              (db', saved) = commit_transactions db [transaction_record]
          in Inr (\<lparr>message = ''Withdrawal processed successfully'',
                   resp_amount = format_2f amount,
                   new_balance = format_2f (total_balance db' current_user),
                   transaction_id = tx_id (hd saved)\<rparr>, db'))"

text \<open>
  \<^verbatim>\<open>transfer\<close> and \<^verbatim>\<open>scan_qrcode\<close> log first, while \<^verbatim>\<open>current_user\<close> is still loaded, then
  roll back and re-raise: \<^verbatim>\<open>except Exception: log; rollback; raise\<close>.
\<close>

definition reraise :: "database \<Rightarrow> error + 'r \<times> database \<Rightarrow> (error + 'r) \<times> database" where
  "reraise db body =
     (case body of
        Inl e \<Rightarrow> (Inl e, rollback db)
      | Inr (response, db') \<Rightarrow> (Inr response, db'))"

text \<open>
  \<^verbatim>\<open>withdraw\<close> rolls back before it logs, as \<^verbatim>\<open>topup\<close> does, and has the \<^verbatim>\<open>raise\<close> after the
  log line: \<^verbatim>\<open>except Exception: rollback; log; raise\<close>.
\<close>

definition withdraw :: "database \<Rightarrow> 'a PaymentRequest_scheme \<Rightarrow> User \<Rightarrow> (error + PaymentResponse) \<times> database" where
  "withdraw db payment current_user =
     (case withdraw_try db payment current_user of
        Inl e \<Rightarrow>
          (let db1 = rollback db;
               user1 = after_rollback current_user
           in case getattr username user1 of
                Inl e' \<Rightarrow> (Inl e', db1)
              | Inr name \<Rightarrow> (Inl e, db1))
      | Inr (response, db') \<Rightarrow> (Inr response, db'))"

definition transfer_try :: "database \<Rightarrow> TransferRequest \<Rightarrow> User \<Rightarrow> error + PaymentResponse \<times> database" where
  "transfer_try db payment current_user =
     (let amount = req_amount payment;
          recipient_name = recipient_username payment;
          description = req_description payment
      in
      if amount \<le> 0 then Inl (InvalidAmountException ''Transfer amount must be greater than zero'')
      else case get_by_username db recipient_name of
        None \<Rightarrow> Inl (UserNotFoundException
                  (''User '' @ apostrophe @ recipient_name @ apostrophe @ '' not found''))
      | Some recipient \<Rightarrow>
          if user_pk recipient = user_pk current_user then
            Inl (InvalidAmountException ''Cannot transfer to yourself'')
          else
            let sender_balance = total_balance db current_user in
            if amount > sender_balance then
              Inl (InsufficientBalanceException (''Transfer amount $'' @ format_2f amount @
                     '' exceeds available balance $'' @ format_2f sender_balance))
            else
              let sender_transaction = \<lparr>tx_id = None, tx_amount = - amount,
                    transaction_type = TRANSFER_SENT,
                    tx_description = Some (if description \<noteq> [] then description
                                           else ''Transfer to '' @ recipient_name),
                    tx_user_id = user_pk current_user,
                    reference_user_id = Some (user_pk recipient), tx_qr_id = None\<rparr>;
                  recipient_transaction = \<lparr>tx_id = None, tx_amount = amount,
                    transaction_type = TRANSFER_RECEIVED,
                    tx_description = Some (if description \<noteq> [] then description
                                           else ''Transfer from '' @ username current_user),
                    tx_user_id = user_pk recipient,
                    reference_user_id = Some (user_pk current_user), tx_qr_id = None\<rparr>;
                  (db', saved) = commit_transactions db [sender_transaction, recipient_transaction]
              in Inr (\<lparr>message = ''Transfer to '' @ recipient_name @ '' processed successfully'',
                       resp_amount = format_2f amount,
                       new_balance = format_2f (total_balance db' current_user),
                       transaction_id = tx_id (hd saved)\<rparr>, db'))"

definition transfer :: "database \<Rightarrow> TransferRequest \<Rightarrow> User \<Rightarrow> (error + PaymentResponse) \<times> database" where
  "transfer db payment current_user = reraise db (transfer_try db payment current_user)"

text \<open>
  \<^verbatim>\<open>qrcode_request\<close> and \<^verbatim>\<open>qrcode_send\<close> answer with the rendered image and three headers;
  the image is the rendering collaborator's, the headers are kept.  \<open>qr_alive_delta\<close> is
  \<^verbatim>\<open>settings.qr_alive_delta\<close>.
\<close>

record QRHeaders =
  hdr_qr_id :: string
  hdr_qr_url :: string
  hdr_qr_type :: string

definition timedelta_minutes :: "int \<Rightarrow> int" where
  "timedelta_minutes m = m * 60 * 1000000"

definition qrcode_request :: "datetime \<Rightarrow> string \<Rightarrow> int \<Rightarrow> string option \<Rightarrow> database \<Rightarrow>
    PaymentCollectionRequest \<Rightarrow> User \<Rightarrow> (error + QRHeaders) \<times> database" where
  "qrcode_request now uuid qr_alive_delta origin db collect current_user =
     (let t = now;
          expire_at = min (case req_expire collect of Some e \<Rightarrow> e | None \<Rightarrow> t + qr_alive_delta)
                          (t + qr_alive_delta);
          qrcode = \<lparr>qr_pk = None, qr_id = uuid, qr_type = REQUEST_PAYMENT,
                    max_use_count = Some (max_user_count collect),
                    qr_amount = Some (req_amount collect), expire = Some expire_at,
                    qr_user_id = user_pk current_user\<rparr>;
          (db', qrcode') = commit_qrcode db qrcode;
          url = (case origin of
                   None \<Rightarrow> qr_id qrcode'
                 | Some orig \<Rightarrow> if orig \<noteq> [] then orig @ ''/pay/scan/request/'' @ qr_id qrcode'
                                else qr_id qrcode')
      in (Inr \<lparr>hdr_qr_id = qr_id qrcode', hdr_qr_url = url,
               hdr_qr_type = QRType_value (qr_type qrcode')\<rparr>, db'))"

definition qrcode_send :: "datetime \<Rightarrow> string \<Rightarrow> string option \<Rightarrow> database \<Rightarrow> User \<Rightarrow>
    (error + QRHeaders) \<times> database" where
  "qrcode_send now uuid origin db current_user =
     (let qrcode = \<lparr>qr_pk = None, qr_id = uuid, qr_type = SEND_PAYMENT,
                    max_use_count = Some 1, qr_amount = None,
                    expire = Some (now + timedelta_minutes 1),
                    qr_user_id = user_pk current_user\<rparr>;
          (deleted, db1) = clean_unused_send_qrcodes db;
          (db', qrcode') = commit_qrcode db1 qrcode;
          url = (case origin of
                   None \<Rightarrow> qr_id qrcode'
                 | Some orig \<Rightarrow> if orig \<noteq> [] then orig @ ''/pay/scan/send/'' @ qr_id qrcode'
                                else qr_id qrcode')
      in (Inr \<lparr>hdr_qr_id = qr_id qrcode', hdr_qr_url = url,
               hdr_qr_type = QRType_value (qr_type qrcode')\<rparr>, db'))"

definition scan_qrcode_try :: "datetime \<Rightarrow> database \<Rightarrow> string \<Rightarrow> User \<Rightarrow> money option \<Rightarrow>
    error + PaymentResponse \<times> database" where
  "scan_qrcode_try now db token current_user amount =
     (case get_by_qr_id db token of
        None \<Rightarrow> Inl (TransactionNotFoundException ''QR code not found'')
      | Some qrcode \<Rightarrow>
          if is_expired now qrcode then
            Inl (TransactionNotFoundException ''QR code has expired or is invalid'')
          else (case is_exceed_limit db qrcode of
            Inl e \<Rightarrow> Inl e
          | Inr True \<Rightarrow>
              Inl (TransactionNotFoundException ''QR code has reached its maximum usage limit'')
          | Inr False \<Rightarrow>
             (case qr_type qrcode of
                REQUEST_PAYMENT \<Rightarrow>
                 (case qr_amount qrcode of
                    None \<Rightarrow> Inl (InvalidAmountException ''QR code has invalid amount'')
                  | Some payment_amount \<Rightarrow>
                      if payment_amount \<le> 0 then
                        Inl (InvalidAmountException ''QR code has invalid amount'')
                      else (case qrcode_user db qrcode of
                        None \<Rightarrow> Inl AttributeError
                      | Some recipient \<Rightarrow>
                          let sender = current_user;
                              sender_username = username sender;
                              recipient_name = username recipient
                          in
                          if user_pk recipient = user_pk sender then
                            Inl (InvalidAmountException ''Cannot transfer to yourself'')
                          else
                            let sender_balance = total_balance db sender in
                            if payment_amount > sender_balance then
                              Inl (InsufficientBalanceException
                                     (''Transfer amount $'' @ format_2f payment_amount @
                                      '' exceeds available balance $'' @ format_2f sender_balance))
                            else
                              let sender_transaction = \<lparr>tx_id = None,
                                    tx_amount = - payment_amount, transaction_type = QR_PAYMENT,
                                    tx_description = Some (''Payment via QR code to '' @ recipient_name),
                                    tx_user_id = user_pk sender,
                                    reference_user_id = Some (user_pk recipient),
                                    tx_qr_id = qr_pk qrcode\<rparr>;
                                  recipient_transaction = \<lparr>tx_id = None,
                                    tx_amount = payment_amount, transaction_type = QR_PAYMENT,
                                    tx_description = Some (''Payment via QR code from '' @ sender_username),
                                    tx_user_id = user_pk recipient,
                                    reference_user_id = Some (user_pk sender),
                                    tx_qr_id = qr_pk qrcode\<rparr>;
                                  (db', saved) = commit_transactions db
                                                   [sender_transaction, recipient_transaction]
                              in Inr (\<lparr>message = ''QR Payment to '' @ recipient_name @
                                                 '' processed successfully'',
                                       resp_amount = format_2f payment_amount,
                                       new_balance = format_2f (total_balance db' sender),
                                       transaction_id = tx_id (hd saved)\<rparr>, db')))
              | SEND_PAYMENT \<Rightarrow>
                 (case amount of
                    None \<Rightarrow> Inl (InvalidAmountException
                              ''Amount must be specified and greater than zero'')
                  | Some payment_amount \<Rightarrow>
                      if payment_amount \<le> 0 then
                        Inl (InvalidAmountException
                               ''Amount must be specified and greater than zero'')
                      else (case qrcode_user db qrcode of
                        None \<Rightarrow> Inl AttributeError
                      | Some sender \<Rightarrow>
                          let recipient = current_user;
                              sender_username = username sender;
                              recipient_name = username recipient
                          in
                          if user_pk recipient = user_pk sender then
                            Inl (InvalidAmountException ''Cannot transfer to yourself'')
                          else
                            let sender_balance = total_balance db sender in
                            if payment_amount > sender_balance then
                              Inl (InsufficientBalanceException
                                     (''Transfer amount $'' @ format_2f payment_amount @
                                      '' exceeds available balance $'' @ format_2f sender_balance))
                            else
                              let sender_transaction = \<lparr>tx_id = None,
                                    tx_amount = - payment_amount, transaction_type = QR_PAYMENT,
                                    tx_description = Some (''Payment via QR code to '' @ recipient_name),
                                    tx_user_id = user_pk sender,
                                    reference_user_id = Some (user_pk recipient),
                                    tx_qr_id = qr_pk qrcode\<rparr>;
                                  recipient_transaction = \<lparr>tx_id = None,
                                    tx_amount = payment_amount, transaction_type = QR_PAYMENT,
                                    tx_description = Some (''Payment via QR code from '' @ sender_username),
                                    tx_user_id = user_pk recipient,
                                    reference_user_id = Some (user_pk sender),
                                    tx_qr_id = qr_pk qrcode\<rparr>;
                                  (db', saved) = commit_transactions db
                                                   [sender_transaction, recipient_transaction]
                              in Inr (\<lparr>message = ''QR Payment from '' @ sender_username @
                                                 '' processed successfully'',
                                       resp_amount = format_2f payment_amount,
                                       new_balance = format_2f (total_balance db' recipient),
                                       transaction_id = tx_id (saved ! 1)\<rparr>, db'))))))"

definition scan_qrcode :: "datetime \<Rightarrow> database \<Rightarrow> string \<Rightarrow> User \<Rightarrow> money option \<Rightarrow>
    (error + PaymentResponse) \<times> database" where
  "scan_qrcode now db token current_user amount =
     reraise db (scan_qrcode_try now db token current_user amount)"

text \<open>
  \<^verbatim>\<open>get_qrcode_by_uuid\<close> reads only; its \<^verbatim>\<open>except\<close> clause logs and re-raises.  The response
  carries \<^verbatim>\<open>expire\<close> as the timestamp that \<^verbatim>\<open>isoformat()\<close> prints.
\<close>

definition get_qrcode_by_uuid :: "datetime \<Rightarrow> database \<Rightarrow> string \<Rightarrow> error + QRCodeResponse" where
  "get_qrcode_by_uuid now db token =
     (case get_by_qr_id db token of
        None \<Rightarrow> Inl (TransactionNotFoundException ''QR code not found'')
      | Some qrcode \<Rightarrow>
          if qr_type qrcode = SEND_PAYMENT \<and> \<not> can_be_used now qrcode then
            Inl (TransactionNotFoundException ''QR code has expired or is invalid'')
          else Inr \<lparr>res_qr_id = qr_id qrcode, res_qr_type = QRType_value (qr_type qrcode),
                    res_amount = qr_amount qrcode, res_expire = expire qrcode\<rparr>)"

section \<open>The primary key of the voucher table\<close>

text \<open>
  \<^verbatim>\<open>qrcode.id\<close> is the table's primary key: every stored row has one, drawn from the
  sequence, and no two rows share it.
\<close>

definition qrcode_primary_key :: "database \<Rightarrow> bool" where
  "qrcode_primary_key db =
     (distinct (map qr_pk (qrcodes db)) \<and>
      list_all (\<lambda>q. case qr_pk q of None \<Rightarrow> False | Some i \<Rightarrow> i \<le> qrcode_seq db) (qrcodes db))"

section \<open>Example stores\<close>

definition alice :: User where
  "alice = \<lparr>user_pk = 1, username = ''alice''\<rparr>"

definition bob :: User where
  "bob = \<lparr>user_pk = 2, username = ''bob''\<rparr>"

definition db_empty :: database where
  "db_empty = \<lparr>users = [alice, bob], transactions = [], qrcodes = [],
               transaction_seq = 0, qrcode_seq = 0\<rparr>"

definition topup_alice :: Transaction where
  "topup_alice = \<lparr>tx_id = Some 1, tx_amount = 10000, transaction_type = TOPUP,
                  tx_description = Some ''Top-up of $100.00'', tx_user_id = 1,
                  reference_user_id = None, tx_qr_id = None\<rparr>"

text \<open>Alice has topped up 100.00.\<close>

definition db_funded :: database where
  "db_funded = db_empty\<lparr>transactions := [topup_alice], transaction_seq := 1\<rparr>"

definition send_voucher :: "nat \<Rightarrow> string \<Rightarrow> datetime \<Rightarrow> User \<Rightarrow> QRCode" where
  "send_voucher i token e owner =
     \<lparr>qr_pk = Some i, qr_id = token, qr_type = SEND_PAYMENT, max_use_count = Some 1,
      qr_amount = None, expire = Some e, qr_user_id = user_pk owner\<rparr>"

text \<open>Bob has issued a send voucher at time 0 and nobody has used it; the ledger is empty.\<close>

definition db_bob_voucher :: database where
  "db_bob_voucher = db_empty\<lparr>qrcodes := [send_voucher 1 ''u1'' 60000000 bob], qrcode_seq := 1\<rparr>"

text \<open>Alice, funded, has issued a send voucher at time 0.\<close>

definition db_issued :: database where
  "db_issued = db_funded\<lparr>qrcodes := [send_voucher 1 ''u1'' 60000000 alice], qrcode_seq := 1\<rparr>"

text \<open>Bob has redeemed Alice's voucher for 30.00: its single use is spent.\<close>

definition db_used :: database where
  "db_used = db_issued\<lparr>transactions := [topup_alice,
       \<lparr>tx_id = Some 2, tx_amount = - 3000, transaction_type = QR_PAYMENT,
        tx_description = Some ''Payment via QR code to bob'', tx_user_id = 1,
        reference_user_id = Some 2, tx_qr_id = Some 1\<rparr>,
       \<lparr>tx_id = Some 3, tx_amount = 3000, transaction_type = QR_PAYMENT,
        tx_description = Some ''Payment via QR code from alice'', tx_user_id = 2,
        reference_user_id = Some 1, tx_qr_id = Some 1\<rparr>],
     transaction_seq := 3\<rparr>"

text \<open>Alice, funded, has transferred 50.00 to Bob.\<close>

definition db_paid :: database where
  "db_paid = db_funded\<lparr>transactions := [topup_alice,
       \<lparr>tx_id = Some 2, tx_amount = - 5000, transaction_type = TRANSFER_SENT,
        tx_description = Some ''Transfer to bob'', tx_user_id = 1,
        reference_user_id = Some 2, tx_qr_id = None\<rparr>,
       \<lparr>tx_id = Some 3, tx_amount = 5000, transaction_type = TRANSFER_RECEIVED,
        tx_description = Some ''Transfer from alice'', tx_user_id = 2,
        reference_user_id = Some 1, tx_qr_id = None\<rparr>],
     transaction_seq := 3\<rparr>"

text \<open>Alice, funded, has withdrawn 40.00.\<close>

definition db_withdrawn :: database where
  "db_withdrawn = db_funded\<lparr>transactions := [topup_alice,
       \<lparr>tx_id = Some 2, tx_amount = - 4000, transaction_type = WITHDRAWAL,
        tx_description = Some ''Withdrawal of $40.00'', tx_user_id = 1,
        reference_user_id = None, tx_qr_id = None\<rparr>],
     transaction_seq := 2\<rparr>"

text \<open>
  Bob has issued, at time 0 and with a voucher lifetime of 168 seconds, a request voucher
  for 20.00 with three uses; then Alice has paid it.
\<close>

definition collect_20 :: PaymentCollectionRequest where
  "collect_20 = \<lparr>req_amount = 2000, max_user_count = 3, req_expire = None\<rparr>"

definition request_voucher :: QRCode where
  "request_voucher =
     \<lparr>qr_pk = Some 1, qr_id = ''r1'', qr_type = REQUEST_PAYMENT, max_use_count = Some 3,
      qr_amount = Some 2000, expire = Some 168000000, qr_user_id = 2\<rparr>"

definition db_request :: database where
  "db_request = db_funded\<lparr>qrcodes := [request_voucher], qrcode_seq := 1\<rparr>"

definition db_request_paid :: database where
  "db_request_paid = db_request\<lparr>transactions := [topup_alice,
       \<lparr>tx_id = Some 2, tx_amount = - 2000, transaction_type = QR_PAYMENT,
        tx_description = Some ''Payment via QR code to bob'', tx_user_id = 1,
        reference_user_id = Some 2, tx_qr_id = Some 1\<rparr>,
       \<lparr>tx_id = Some 3, tx_amount = 2000, transaction_type = QR_PAYMENT,
        tx_description = Some ''Payment via QR code from alice'', tx_user_id = 2,
        reference_user_id = Some 1, tx_qr_id = Some 1\<rparr>],
     transaction_seq := 3\<rparr>"

definition pay_bob :: TransferRequest where
  "pay_bob = \<lparr>req_amount = 5000, recipient_username = ''bob'', req_description = []\<rparr>"

definition pay_self :: "money \<Rightarrow> TransferRequest" where
  "pay_self a = \<lparr>req_amount = a, recipient_username = ''alice'', req_description = []\<rparr>"

section \<open>What a handler's outcome says about the store\<close>

lemma commit_transactions_one:
  "commit_transactions db [t] =
     (db\<lparr>transactions := transactions db @ [t\<lparr>tx_id := Some (Suc (transaction_seq db))\<rparr>],
         transaction_seq := Suc (transaction_seq db)\<rparr>,
      [t\<lparr>tx_id := Some (Suc (transaction_seq db))\<rparr>])"
  by (simp add: Let_def)

lemma commit_transactions_two:
  "commit_transactions db [s, t] =
     (db\<lparr>transactions := transactions db @
            [s\<lparr>tx_id := Some (Suc (transaction_seq db))\<rparr>,
             t\<lparr>tx_id := Some (Suc (Suc (transaction_seq db)))\<rparr>],
         transaction_seq := Suc (Suc (transaction_seq db))\<rparr>,
      [s\<lparr>tx_id := Some (Suc (transaction_seq db))\<rparr>,
       t\<lparr>tx_id := Some (Suc (Suc (transaction_seq db)))\<rparr>])"
  by (simp add: Let_def)

lemma total_balance_sum:
  "total_balance db u =
     sum_list (map tx_amount (filter (\<lambda>t. tx_user_id t = user_pk u) (transactions db)))"
  by (simp add: total_balance_def coalesce_def sql_sum_def Let_def split: list.splits)

lemma reraise_Inl: "reraise db body = (Inl e, db') \<Longrightarrow> body = Inl e \<and> db' = db"
  by (auto simp: reraise_def rollback_def split: sum.splits prod.splits)

lemma reraise_Inr: "reraise db body = (Inr r, db') \<Longrightarrow> body = Inr (r, db')"
  by (auto simp: reraise_def rollback_def split: sum.splits prod.splits)

lemma qrcode_user_pk: "qrcode_user db q = Some owner \<Longrightarrow> user_pk owner = qr_user_id q"
  unfolding qrcode_user_def by (auto simp: find_Some_iff)

lemma topup_outcome:
  "topup db payment u =
     (case topup_try db payment u of
        Inl e \<Rightarrow> (Inl MissingGreenlet, db)
      | Inr (response, db') \<Rightarrow> (Inr (Some response), db'))"
  by (simp add: topup_def rollback_def after_rollback_def getattr_def split: sum.splits)

lemma withdraw_outcome:
  "withdraw db payment u =
     (case withdraw_try db payment u of
        Inl e \<Rightarrow> (Inl MissingGreenlet, db)
      | Inr (response, db') \<Rightarrow> (Inr response, db'))"
  by (simp add: withdraw_def rollback_def after_rollback_def getattr_def split: sum.splits)

lemma withdraw_Inr:
  assumes "withdraw db payment u = (Inr r, db')"
  shows "\<exists>s. 0 < req_amount payment \<and> req_amount payment \<le> total_balance db u \<and>
           tx_user_id s = user_pk u \<and> tx_amount s = - req_amount payment \<and>
           tx_qr_id s = None \<and>
           transactions db' = transactions db @ [s] \<and>
           users db' = users db \<and> qrcodes db' = qrcodes db \<and> qrcode_seq db' = qrcode_seq db"
proof -
  from assms have "withdraw_try db payment u = Inr (r, db')"
    unfolding withdraw_outcome by (auto split: sum.splits prod.splits)
  then show ?thesis
    unfolding withdraw_try_def Let_def commit_transactions_one
    by (auto split: if_splits)
qed

lemma withdraw_Inl: "withdraw db payment u = (Inl e, db') \<Longrightarrow> db' = db"
  unfolding withdraw_outcome by (auto split: sum.splits prod.splits)

lemma transfer_try_Inr:
  assumes "transfer_try db payment current_user = Inr (r, db')"
  shows "\<exists>recipient s t.
           get_by_username db (recipient_username payment) = Some recipient \<and>
           0 < req_amount payment \<and>
           user_pk recipient \<noteq> user_pk current_user \<and>
           req_amount payment \<le> total_balance db current_user \<and>
           tx_user_id s = user_pk current_user \<and> tx_amount s = - req_amount payment \<and>
           tx_user_id t = user_pk recipient \<and> tx_amount t = req_amount payment \<and>
           tx_qr_id s = None \<and> tx_qr_id t = None \<and>
           transactions db' = transactions db @ [s, t] \<and>
           users db' = users db \<and> qrcodes db' = qrcodes db \<and> qrcode_seq db' = qrcode_seq db"
  using assms
  unfolding transfer_try_def Let_def commit_transactions_two
  by (auto split: if_splits option.splits)

lemma transfer_Inr:
  assumes "transfer db payment current_user = (Inr r, db')"
  shows "\<exists>recipient s t.
           get_by_username db (recipient_username payment) = Some recipient \<and>
           0 < req_amount payment \<and>
           user_pk recipient \<noteq> user_pk current_user \<and>
           req_amount payment \<le> total_balance db current_user \<and>
           tx_user_id s = user_pk current_user \<and> tx_amount s = - req_amount payment \<and>
           tx_user_id t = user_pk recipient \<and> tx_amount t = req_amount payment \<and>
           tx_qr_id s = None \<and> tx_qr_id t = None \<and>
           transactions db' = transactions db @ [s, t] \<and>
           users db' = users db \<and> qrcodes db' = qrcodes db \<and> qrcode_seq db' = qrcode_seq db"
  using assms unfolding transfer_def by (intro transfer_try_Inr reraise_Inr)

lemma transfer_Inl: "transfer db payment current_user = (Inl e, db') \<Longrightarrow> db' = db"
  unfolding transfer_def by (drule reraise_Inl) simp

lemma scan_qrcode_Inl: "scan_qrcode now db token u amount = (Inl e, db') \<Longrightarrow> db' = db"
  unfolding scan_qrcode_def by (drule reraise_Inl) simp

lemma scan_qrcode_Inr_found:
  assumes "scan_qrcode now db token u amount = (Inr r, db')"
  shows "\<exists>q. get_by_qr_id db token = Some q \<and> \<not> is_expired now q \<and>
             is_exceed_limit db q = Inr False"
proof -
  from assms have "scan_qrcode_try now db token u amount = Inr (r, db')"
    unfolding scan_qrcode_def by (rule reraise_Inr)
  then show ?thesis
    unfolding scan_qrcode_try_def
    by (auto split: option.splits if_splits sum.splits bool.splits)
qed

lemma scan_request_Inr:
  assumes "scan_qrcode now db token u amount = (Inr r, db')"
    and "get_by_qr_id db token = Some q" and "qr_type q = REQUEST_PAYMENT"
  shows "\<exists>owner a s t.
           qrcode_user db q = Some owner \<and> qr_amount q = Some a \<and> 0 < a \<and>
           user_pk owner \<noteq> user_pk u \<and> a \<le> total_balance db u \<and>
           tx_user_id s = user_pk u \<and> tx_amount s = - a \<and>
           tx_user_id t = user_pk owner \<and> tx_amount t = a \<and>
           tx_qr_id s = qr_pk q \<and> tx_qr_id t = qr_pk q \<and>
           transactions db' = transactions db @ [s, t] \<and>
           users db' = users db \<and> qrcodes db' = qrcodes db \<and> qrcode_seq db' = qrcode_seq db"
proof -
  from assms(1) have "scan_qrcode_try now db token u amount = Inr (r, db')"
    unfolding scan_qrcode_def by (rule reraise_Inr)
  with assms(2,3) show ?thesis
    unfolding scan_qrcode_try_def Let_def commit_transactions_two
    by (auto split: option.splits if_splits sum.splits bool.splits)
qed

lemma scan_send_Inr:
  assumes "scan_qrcode now db token u amount = (Inr r, db')"
    and "get_by_qr_id db token = Some q" and "qr_type q = SEND_PAYMENT"
  shows "\<exists>owner a s t.
           qrcode_user db q = Some owner \<and> amount = Some a \<and> 0 < a \<and>
           user_pk owner \<noteq> user_pk u \<and> a \<le> total_balance db owner \<and>
           tx_user_id s = user_pk owner \<and> tx_amount s = - a \<and>
           tx_user_id t = user_pk u \<and> tx_amount t = a \<and>
           tx_qr_id s = qr_pk q \<and> tx_qr_id t = qr_pk q \<and>
           transactions db' = transactions db @ [s, t] \<and>
           users db' = users db \<and> qrcodes db' = qrcodes db \<and> qrcode_seq db' = qrcode_seq db"
proof -
  from assms(1) have "scan_qrcode_try now db token u amount = Inr (r, db')"
    unfolding scan_qrcode_def by (rule reraise_Inr)
  with assms(2,3) show ?thesis
    unfolding scan_qrcode_try_def Let_def commit_transactions_two
    by (auto split: option.splits if_splits sum.splits bool.splits)
qed

lemmas ex_defs = alice_def bob_def db_empty_def db_funded_def topup_alice_def send_voucher_def
  db_bob_voucher_def db_issued_def db_used_def pay_bob_def pay_self_def db_paid_def
  db_withdrawn_def collect_20_def request_voucher_def db_request_def db_request_paid_def

lemmas sql_defs = sql_where_def sql_eq_def sql_in_def sql_not_def sql_sum_def coalesce_def

lemma format_2f_zero: "format_2f 0 = ''0.00''"
  by (simp add: format_2f_def str_nat.simps digit_def)

subsection \<open>The payer's balance across an operation\<close>

lemma balance_after_one:
  assumes "transactions db' = transactions db @ [s]"
  shows "total_balance db' v =
           total_balance db v + (if tx_user_id s = user_pk v then tx_amount s else 0)"
  using assms by (simp add: total_balance_sum)

lemma balance_after_two:
  assumes "transactions db' = transactions db @ [s, t]"
  shows "total_balance db' v =
           total_balance db v + (if tx_user_id s = user_pk v then tx_amount s else 0)
                              + (if tx_user_id t = user_pk v then tx_amount t else 0)"
  using assms by (simp add: total_balance_sum)

lemma withdraw_payer:
  assumes "0 \<le> total_balance db u" and "withdraw db payment u = (res, db')"
  shows "0 \<le> total_balance db' u \<and>
         (\<forall>r. res = Inr r \<longrightarrow> req_amount payment \<le> total_balance db u \<and>
              total_balance db' u = total_balance db u - req_amount payment)"
proof (cases res)
  case (Inl e)
  with assms show ?thesis by (auto dest: withdraw_Inl)
next
  case (Inr r)
  with assms(2) obtain s where s: "req_amount payment \<le> total_balance db u"
    "tx_user_id s = user_pk u" "tx_amount s = - req_amount payment"
    "transactions db' = transactions db @ [s]"
    by (auto dest!: withdraw_Inr)
  from balance_after_one [OF s(4), of u] s show ?thesis by simp
qed

lemma transfer_payer:
  assumes "0 \<le> total_balance db u" and "transfer db payment u = (res, db')"
  shows "0 \<le> total_balance db' u \<and>
         (\<forall>r. res = Inr r \<longrightarrow> req_amount payment \<le> total_balance db u \<and>
              total_balance db' u = total_balance db u - req_amount payment)"
proof (cases res)
  case (Inl e)
  with assms show ?thesis by (auto dest: transfer_Inl)
next
  case (Inr r)
  with assms(2) obtain recipient :: User and s t where s: "req_amount payment \<le> total_balance db u"
    "user_pk recipient \<noteq> user_pk u"
    "tx_user_id s = user_pk u" "tx_amount s = - req_amount payment"
    "tx_user_id t = user_pk recipient"
    "transactions db' = transactions db @ [s, t]"
    by (auto dest!: transfer_Inr)
  from balance_after_two [OF s(6), of u] s show ?thesis by simp
qed

lemma scan_request_payer:
  assumes "get_by_qr_id db token = Some q" and "qr_type q = REQUEST_PAYMENT"
    and "0 \<le> total_balance db u" and "scan_qrcode now db token u amount = (res, db')"
  shows "0 \<le> total_balance db' u \<and>
         (\<forall>r. res = Inr r \<longrightarrow> (\<exists>a. qr_amount q = Some a \<and> a \<le> total_balance db u \<and>
              total_balance db' u = total_balance db u - a))"
proof (cases res)
  case (Inl e)
  with assms show ?thesis by (auto dest: scan_qrcode_Inl)
next
  case (Inr r)
  with assms(4) have "scan_qrcode now db token u amount = (Inr r, db')" by simp
  from scan_request_Inr [OF this assms(1,2)]
  obtain owner :: User and a s t where s: "qr_amount q = Some a" "a \<le> total_balance db u"
    "user_pk owner \<noteq> user_pk u"
    "tx_user_id s = user_pk u" "tx_amount s = - a"
    "tx_user_id t = user_pk owner"
    "transactions db' = transactions db @ [s, t]"
    by blast
  from balance_after_two [OF s(7), of u] s show ?thesis by simp
qed

lemma scan_send_payer:
  assumes "get_by_qr_id db token = Some q" and "qr_type q = SEND_PAYMENT"
    and "qrcode_user db q = Some owner"
    and "0 \<le> total_balance db owner" and "scan_qrcode now db token u amount = (res, db')"
  shows "0 \<le> total_balance db' owner \<and>
         (\<forall>r. res = Inr r \<longrightarrow> (\<exists>a. amount = Some a \<and> a \<le> total_balance db owner \<and>
              total_balance db' owner = total_balance db owner - a))"
proof (cases res)
  case (Inl e)
  with assms show ?thesis by (auto dest: scan_qrcode_Inl)
next
  case (Inr r)
  with assms(5) have "scan_qrcode now db token u amount = (Inr r, db')" by simp
  from scan_send_Inr [OF this assms(1,2)] assms(3)
  obtain a s t where s: "amount = Some a" "a \<le> total_balance db owner"
    "user_pk owner \<noteq> user_pk u"
    "tx_user_id s = user_pk owner" "tx_amount s = - a"
    "tx_user_id t = user_pk u"
    "transactions db' = transactions db @ [s, t]"
    by auto
  from balance_after_two [OF s(7), of owner] s show ?thesis by simp
qed

subsection \<open>Runs on the example stores\<close>

lemma transfer_example:
  "\<exists>r. transfer db_funded pay_bob alice = (Inr r, db_paid)"
  by (simp add: transfer_def transfer_try_def reraise_def get_by_username_def total_balance_def
      sql_defs ex_defs Let_def)

lemma withdraw_ok_example:
  "\<exists>r. withdraw db_funded \<lparr>req_amount = 4000\<rparr> alice = (Inr r, db_withdrawn)"
  by (simp add: withdraw_outcome withdraw_try_def total_balance_def sql_defs
      ex_defs Let_def format_2f_def str_nat.simps digit_def)

lemma request_example:
  "\<exists>r. scan_qrcode 10 db_request ''r1'' alice None = (Inr r, db_request_paid)"
  by (simp add: scan_qrcode_def scan_qrcode_try_def reraise_def Let_def ex_defs
      get_by_qr_id_def is_expired_def is_exceed_limit_def current_use_count_def qrcode_user_def
      total_balance_def sql_defs)

lemma scan_example:
  "\<exists>r. scan_qrcode 10 db_issued ''u1'' bob (Some 3000) = (Inr r, db_used)"
  by (simp add: scan_qrcode_def scan_qrcode_try_def reraise_def Let_def ex_defs
      get_by_qr_id_def is_expired_def is_exceed_limit_def current_use_count_def qrcode_user_def
      total_balance_def sql_defs)

lemma withdraw_example:
  "withdraw_try db_funded \<lparr>req_amount = 15000\<rparr> alice =
     Inl (InsufficientBalanceException
        ''Withdrawal amount $150.00 exceeds available balance $100.00'') \<and>
   withdraw db_funded \<lparr>req_amount = 15000\<rparr> alice = (Inl MissingGreenlet, db_funded)"
  by (simp add: withdraw_outcome withdraw_try_def total_balance_def sql_defs
      ex_defs Let_def format_2f_def str_nat.simps digit_def)

lemma example_stores_reached:
  "snd (topup db_empty \<lparr>req_amount = 10000\<rparr> alice) = db_funded"
  "snd (qrcode_send 0 ''u1'' None db_funded alice) = db_issued"
  "snd (scan_qrcode 10 db_issued ''u1'' bob (Some 3000)) = db_used"
  "snd (qrcode_send 0 ''u1'' None db_empty bob) = db_bob_voucher"
  "snd (qrcode_request 0 ''r1'' 168000000 None db_funded collect_20 bob) = db_request"
  "snd (scan_qrcode 10 db_request ''r1'' alice None) = db_request_paid"
  "snd (transfer db_funded pay_bob alice) = db_paid"
  "snd (withdraw db_funded \<lparr>req_amount = 4000\<rparr> alice) = db_withdrawn"
proof -
  show "snd (topup db_empty \<lparr>req_amount = 10000\<rparr> alice) = db_funded"
    by (simp add: topup_outcome topup_try_def Let_def ex_defs format_2f_def str_nat.simps
        digit_def)
  show "snd (qrcode_send 0 ''u1'' None db_funded alice) = db_issued"
    by (simp add: qrcode_send_def clean_unused_send_qrcodes_def commit_qrcode_def
        timedelta_minutes_def unused_send_qrcode_def Let_def ex_defs)
  show "snd (scan_qrcode 10 db_issued ''u1'' bob (Some 3000)) = db_used"
    using scan_example by auto
  show "snd (qrcode_send 0 ''u1'' None db_empty bob) = db_bob_voucher"
    by (simp add: qrcode_send_def clean_unused_send_qrcodes_def commit_qrcode_def
        timedelta_minutes_def Let_def ex_defs)
  show "snd (qrcode_request 0 ''r1'' 168000000 None db_funded collect_20 bob) = db_request"
    by (simp add: qrcode_request_def commit_qrcode_def Let_def ex_defs)
  show "snd (scan_qrcode 10 db_request ''r1'' alice None) = db_request_paid"
    using request_example by auto
  show "snd (transfer db_funded pay_bob alice) = db_paid"
    using transfer_example by auto
  show "snd (withdraw db_funded \<lparr>req_amount = 4000\<rparr> alice) = db_withdrawn"
    using withdraw_ok_example by auto
qed

section \<open>Balance from the log\<close>

text \<open>
  C2.  For every account and every state of the store, \<^verbatim>\<open>total_balance\<close> returns the sum
  of the amounts of all ledger entries whose \<^verbatim>\<open>user_id\<close> is the account's id; for an
  account with no entries it returns zero, printed with two decimals as \<^verbatim>\<open>0.00\<close>.
\<close>

theorem balance_from_log:
  "total_balance db account =
     sum_list (map tx_amount
       (filter (\<lambda>t. tx_user_id t = user_pk account) (transactions db))) \<and>
   (filter (\<lambda>t. tx_user_id t = user_pk account) (transactions db) = [] \<longrightarrow>
      total_balance db account = 0 \<and> format_2f (total_balance db account) = ''0.00'')"
proof (intro conjI impI)
  show "total_balance db account =
     sum_list (map tx_amount (filter (\<lambda>t. tx_user_id t = user_pk account) (transactions db)))"
    by (rule total_balance_sum)
next
  assume none: "filter (\<lambda>t. tx_user_id t = user_pk account) (transactions db) = []"
  then show zero: "total_balance db account = 0"
    by (simp add: total_balance_def sql_sum_def coalesce_def)
  then show "format_2f (total_balance db account) = ''0.00''"
    by (simp add: format_2f_zero)
qed

theorem balance_from_log_witness:
  "filter (\<lambda>t. tx_user_id t = user_pk bob) (transactions db_funded) = [] \<and>
   total_balance db_funded bob = 0 \<and>
   format_2f (total_balance db_funded bob) = ''0.00'' \<and>
   total_balance db_used alice = 7000"
  using balance_from_log [of db_funded bob] balance_from_log [of db_used alice]
  by (simp add: ex_defs format_2f_zero)

section \<open>Double entry\<close>

text \<open>
  C1.  A \<^verbatim>\<open>transfer\<close> or a \<^verbatim>\<open>scan_qrcode\<close> (of a request or a send voucher) that commits
  appends exactly two ledger entries in its one commit: amount \<open>- a\<close> on the payer and
  \<open>a\<close> on the payee, with \<open>0 < a\<close> (for a request voucher the payer is the redeemer and the payee the
  owner, for a send voucher the other way round).  One that raises leaves the ledger as
  it was.  So both entries exist or neither does.
\<close>

theorem double_entry_atomic:
  "(transfer db payment current_user = (Inr r, db') \<longrightarrow>
      (\<exists>recipient s t.
         get_by_username db (recipient_username payment) = Some recipient \<and>
         0 < req_amount payment \<and>
         transactions db' = transactions db @ [s, t] \<and>
         tx_user_id s = user_pk current_user \<and> tx_amount s = - req_amount payment \<and>
         tx_user_id t = user_pk recipient \<and> tx_amount t = req_amount payment \<and>
         tx_amount s = - tx_amount t)) \<and>
   (transfer db payment current_user = (Inl e, db') \<longrightarrow> transactions db' = transactions db) \<and>
   (scan_qrcode now db token current_user amount = (Inr r, db') \<longrightarrow>
      (\<exists>qrcode owner a s t.
         get_by_qr_id db token = Some qrcode \<and> qrcode_user db qrcode = Some owner \<and>
         0 < a \<and>
         transactions db' = transactions db @ [s, t] \<and>
         tx_amount s = - a \<and> tx_amount t = a \<and>
         tx_qr_id s = qr_pk qrcode \<and> tx_qr_id t = qr_pk qrcode \<and>
         (case qr_type qrcode of
            REQUEST_PAYMENT \<Rightarrow> qr_amount qrcode = Some a \<and>
              tx_user_id s = user_pk current_user \<and> tx_user_id t = user_pk owner
          | SEND_PAYMENT \<Rightarrow> amount = Some a \<and>
              tx_user_id s = user_pk owner \<and> tx_user_id t = user_pk current_user))) \<and>
   (scan_qrcode now db token current_user amount = (Inl e, db') \<longrightarrow>
      transactions db' = transactions db)"
proof (intro conjI impI)
  assume "transfer db payment current_user = (Inr r, db')"
  from transfer_Inr [OF this]
  show "\<exists>recipient s t.
         get_by_username db (recipient_username payment) = Some recipient \<and>
         0 < req_amount payment \<and>
         transactions db' = transactions db @ [s, t] \<and>
         tx_user_id s = user_pk current_user \<and> tx_amount s = - req_amount payment \<and>
         tx_user_id t = user_pk recipient \<and> tx_amount t = req_amount payment \<and>
         tx_amount s = - tx_amount t"
    by force
next
  assume "transfer db payment current_user = (Inl e, db')"
  then show "transactions db' = transactions db" by (auto dest: transfer_Inl)
next
  assume "scan_qrcode now db token current_user amount = (Inl e, db')"
  then show "transactions db' = transactions db" by (auto dest: scan_qrcode_Inl)
next
  assume ok: "scan_qrcode now db token current_user amount = (Inr r, db')"
  then obtain q where q: "get_by_qr_id db token = Some q"
    by (auto dest: scan_qrcode_Inr_found)
  show "\<exists>qrcode owner a s t.
         get_by_qr_id db token = Some qrcode \<and> qrcode_user db qrcode = Some owner \<and>
         0 < a \<and>
         transactions db' = transactions db @ [s, t] \<and>
         tx_amount s = - a \<and> tx_amount t = a \<and>
         tx_qr_id s = qr_pk qrcode \<and> tx_qr_id t = qr_pk qrcode \<and>
         (case qr_type qrcode of
            REQUEST_PAYMENT \<Rightarrow> qr_amount qrcode = Some a \<and>
              tx_user_id s = user_pk current_user \<and> tx_user_id t = user_pk owner
          | SEND_PAYMENT \<Rightarrow> amount = Some a \<and>
              tx_user_id s = user_pk owner \<and> tx_user_id t = user_pk current_user)"
  proof (cases "qr_type q")
    case REQUEST_PAYMENT
    from scan_request_Inr [OF ok q this] q REQUEST_PAYMENT show ?thesis by force
  next
    case SEND_PAYMENT
    from scan_send_Inr [OF ok q this] q SEND_PAYMENT show ?thesis by force
  qed
qed

theorem double_entry_atomic_witness:
  "(\<exists>r. transfer db_funded pay_bob alice = (Inr r, db_paid)) \<and>
   (\<exists>s t. transactions db_paid = transactions db_funded @ [s, t] \<and>
      tx_user_id s = user_pk alice \<and> tx_amount s = - 5000 \<and>
      tx_user_id t = user_pk bob \<and> tx_amount t = 5000) \<and>
   (\<exists>r. scan_qrcode 10 db_request ''r1'' alice None = (Inr r, db_request_paid)) \<and>
   (\<exists>s t. transactions db_request_paid = transactions db_request @ [s, t] \<and>
      tx_user_id s = user_pk alice \<and> tx_amount s = - 2000 \<and>
      tx_user_id t = user_pk bob \<and> tx_amount t = 2000) \<and>
   (\<exists>r. scan_qrcode 10 db_issued ''u1'' bob (Some 3000) = (Inr r, db_used)) \<and>
   (\<exists>s t. transactions db_used = transactions db_issued @ [s, t] \<and>
      tx_user_id s = user_pk alice \<and> tx_amount s = - 3000 \<and>
      tx_user_id t = user_pk bob \<and> tx_amount t = 3000)"
proof -
  obtain r1 where r1: "transfer db_funded pay_bob alice = (Inr r1, db_paid)"
    using transfer_example by blast
  from double_entry_atomic [where db = db_funded and current_user = alice and r = r1
      and db' = db_paid and payment = pay_bob and e = AttributeError
      and now = 0 and token = "''none''" and amount = None] r1
  obtain recipient :: User and s t where w1:
    "get_by_username db_funded (recipient_username pay_bob) = Some recipient"
    "transactions db_paid = transactions db_funded @ [s, t]"
    "tx_user_id s = user_pk alice" "tx_amount s = - req_amount pay_bob"
    "tx_user_id t = user_pk recipient" "tx_amount t = req_amount pay_bob"
    by blast
  from w1(1) have "recipient = bob" by (simp add: get_by_username_def ex_defs)
  with w1 have c1: "\<exists>s t. transactions db_paid = transactions db_funded @ [s, t] \<and>
      tx_user_id s = user_pk alice \<and> tx_amount s = - 5000 \<and>
      tx_user_id t = user_pk bob \<and> tx_amount t = 5000"
    by (auto simp: pay_bob_def)
  obtain r2 where r2: "scan_qrcode 10 db_request ''r1'' alice None = (Inr r2, db_request_paid)"
    using request_example by blast
  have q2: "get_by_qr_id db_request ''r1'' = Some request_voucher"
    by (simp add: get_by_qr_id_def ex_defs)
  from double_entry_atomic [where db = db_request and current_user = alice and r = r2
      and db' = db_request_paid and now = 10 and token = "''r1''" and amount = None
      and payment = pay_bob and e = AttributeError] r2
  obtain qrcode owner a s t where w2:
    "get_by_qr_id db_request ''r1'' = Some qrcode" "qrcode_user db_request qrcode = Some owner"
    "transactions db_request_paid = transactions db_request @ [s, t]"
    "tx_amount s = - a" "tx_amount t = a"
    "case qr_type qrcode of
       REQUEST_PAYMENT \<Rightarrow> qr_amount qrcode = Some a \<and>
         tx_user_id s = user_pk alice \<and> tx_user_id t = user_pk owner
     | SEND_PAYMENT \<Rightarrow> None = Some a \<and>
         tx_user_id s = user_pk owner \<and> tx_user_id t = user_pk alice"
    by blast
  from w2(1) q2 have qrcode2: "qrcode = request_voucher" by simp
  with w2(2) have "user_pk owner = user_pk bob"
    by (auto dest: qrcode_user_pk simp: request_voucher_def bob_def)
  with w2 qrcode2
  have c2: "\<exists>s t. transactions db_request_paid = transactions db_request @ [s, t] \<and>
      tx_user_id s = user_pk alice \<and> tx_amount s = - 2000 \<and>
      tx_user_id t = user_pk bob \<and> tx_amount t = 2000"
    by (auto simp: request_voucher_def)
  obtain r3 where r3: "scan_qrcode 10 db_issued ''u1'' bob (Some 3000) = (Inr r3, db_used)"
    using scan_example by blast
  have q3: "get_by_qr_id db_issued ''u1'' = Some (send_voucher 1 ''u1'' 60000000 alice)"
    by (simp add: get_by_qr_id_def ex_defs)
  from double_entry_atomic [where db = db_issued and current_user = bob and r = r3
      and db' = db_used and now = 10 and token = "''u1''" and amount = "Some 3000"
      and payment = pay_bob and e = AttributeError] r3
  obtain qrcode owner a s t where w3:
    "get_by_qr_id db_issued ''u1'' = Some qrcode" "qrcode_user db_issued qrcode = Some owner"
    "transactions db_used = transactions db_issued @ [s, t]"
    "tx_amount s = - a" "tx_amount t = a"
    "case qr_type qrcode of
       REQUEST_PAYMENT \<Rightarrow> qr_amount qrcode = Some a \<and>
         tx_user_id s = user_pk bob \<and> tx_user_id t = user_pk owner
     | SEND_PAYMENT \<Rightarrow> Some 3000 = Some a \<and>
         tx_user_id s = user_pk owner \<and> tx_user_id t = user_pk bob"
    by blast
  from w3(1) q3 have qrcode3: "qrcode = send_voucher 1 ''u1'' 60000000 alice" by simp
  with w3(2) have "user_pk owner = user_pk alice"
    by (auto dest: qrcode_user_pk simp: send_voucher_def)
  with w3 qrcode3
  have c3: "\<exists>s t. transactions db_used = transactions db_issued @ [s, t] \<and>
      tx_user_id s = user_pk alice \<and> tx_amount s = - 3000 \<and>
      tx_user_id t = user_pk bob \<and> tx_amount t = 3000"
    by (auto simp: send_voucher_def)
  from transfer_example request_example scan_example c1 c2 c3 show ?thesis by blast
qed

section \<open>No overdraft\<close>

text \<open>
  C3.  If the payer's balance is non-negative before a \<^verbatim>\<open>withdraw\<close>, a \<^verbatim>\<open>transfer\<close>, the
  redemption of a request voucher (payer: the redeemer) or of a send voucher (payer: the
  owner), it is non-negative after it, whatever the outcome; and the operation commits
  only when the amount debited is at most the payer's balance, which then drops by
  exactly that amount.  Operations run one after another here.
\<close>

theorem no_overdraft:
  "(0 \<le> total_balance db u \<and> withdraw db payment u = (res, db') \<longrightarrow>
      0 \<le> total_balance db' u \<and>
      (\<forall>r. res = Inr r \<longrightarrow> req_amount payment \<le> total_balance db u \<and>
           total_balance db' u = total_balance db u - req_amount payment)) \<and>
   (0 \<le> total_balance db u \<and> transfer db transfer_payment u = (res, db') \<longrightarrow>
      0 \<le> total_balance db' u \<and>
      (\<forall>r. res = Inr r \<longrightarrow> req_amount transfer_payment \<le> total_balance db u \<and>
           total_balance db' u = total_balance db u - req_amount transfer_payment)) \<and>
   (get_by_qr_id db token = Some q \<and> qr_type q = REQUEST_PAYMENT \<and>
    0 \<le> total_balance db u \<and> scan_qrcode now db token u amount = (res, db') \<longrightarrow>
      0 \<le> total_balance db' u \<and>
      (\<forall>r. res = Inr r \<longrightarrow> (\<exists>a. qr_amount q = Some a \<and> a \<le> total_balance db u \<and>
           total_balance db' u = total_balance db u - a))) \<and>
   (get_by_qr_id db token = Some q \<and> qr_type q = SEND_PAYMENT \<and>
    qrcode_user db q = Some owner \<and>
    0 \<le> total_balance db owner \<and> scan_qrcode now db token u amount = (res, db') \<longrightarrow>
      0 \<le> total_balance db' owner \<and>
      (\<forall>r. res = Inr r \<longrightarrow> (\<exists>a. amount = Some a \<and> a \<le> total_balance db owner \<and>
           total_balance db' owner = total_balance db owner - a)))"
proof -
  have w: "0 \<le> total_balance db u \<and> withdraw db payment u = (res, db') \<longrightarrow>
      0 \<le> total_balance db' u \<and>
      (\<forall>r. res = Inr r \<longrightarrow> req_amount payment \<le> total_balance db u \<and>
           total_balance db' u = total_balance db u - req_amount payment)"
    using withdraw_payer [of db u payment res db'] by blast
  have t: "0 \<le> total_balance db u \<and> transfer db transfer_payment u = (res, db') \<longrightarrow>
      0 \<le> total_balance db' u \<and>
      (\<forall>r. res = Inr r \<longrightarrow> req_amount transfer_payment \<le> total_balance db u \<and>
           total_balance db' u = total_balance db u - req_amount transfer_payment)"
    using transfer_payer [of db u transfer_payment res db'] by blast
  have r: "get_by_qr_id db token = Some q \<and> qr_type q = REQUEST_PAYMENT \<and>
    0 \<le> total_balance db u \<and> scan_qrcode now db token u amount = (res, db') \<longrightarrow>
      0 \<le> total_balance db' u \<and>
      (\<forall>r. res = Inr r \<longrightarrow> (\<exists>a. qr_amount q = Some a \<and> a \<le> total_balance db u \<and>
           total_balance db' u = total_balance db u - a))"
    using scan_request_payer [of db token q u now amount res db'] by blast
  have s: "get_by_qr_id db token = Some q \<and> qr_type q = SEND_PAYMENT \<and>
    qrcode_user db q = Some owner \<and>
    0 \<le> total_balance db owner \<and> scan_qrcode now db token u amount = (res, db') \<longrightarrow>
      0 \<le> total_balance db' owner \<and>
      (\<forall>r. res = Inr r \<longrightarrow> (\<exists>a. amount = Some a \<and> a \<le> total_balance db owner \<and>
           total_balance db' owner = total_balance db owner - a))"
    using scan_send_payer [of db token q owner now u amount res db'] by blast
  from w t r s show ?thesis by (intro conjI)
qed

theorem no_overdraft_witness:
  "0 \<le> total_balance db_funded alice \<and>
   (\<exists>r. withdraw db_funded \<lparr>req_amount = 4000\<rparr> alice = (Inr r, db_withdrawn)) \<and>
   total_balance db_withdrawn alice = total_balance db_funded alice - 4000 \<and>
   0 \<le> total_balance db_withdrawn alice \<and>
   withdraw db_funded \<lparr>req_amount = 15000\<rparr> alice = (Inl MissingGreenlet, db_funded) \<and>
   (\<exists>r. transfer db_funded pay_bob alice = (Inr r, db_paid)) \<and>
   total_balance db_paid alice = total_balance db_funded alice - 5000 \<and>
   0 \<le> total_balance db_paid alice \<and>
   get_by_qr_id db_request ''r1'' = Some request_voucher \<and>
   0 \<le> total_balance db_request alice \<and>
   (\<exists>r. scan_qrcode 10 db_request ''r1'' alice None = (Inr r, db_request_paid)) \<and>
   total_balance db_request_paid alice = total_balance db_request alice - 2000 \<and>
   0 \<le> total_balance db_request_paid alice \<and>
   get_by_qr_id db_issued ''u1'' = Some (send_voucher 1 ''u1'' 60000000 alice) \<and>
   qrcode_user db_issued (send_voucher 1 ''u1'' 60000000 alice) = Some alice \<and>
   0 \<le> total_balance db_issued alice \<and>
   (\<exists>r. scan_qrcode 10 db_issued ''u1'' bob (Some 3000) = (Inr r, db_used)) \<and>
   total_balance db_used alice = total_balance db_issued alice - 3000 \<and>
   0 \<le> total_balance db_used alice"
proof -
  have b: "0 \<le> total_balance db_funded alice" "0 \<le> total_balance db_request alice"
    "0 \<le> total_balance db_issued alice"
    by (simp_all add: total_balance_def sql_defs ex_defs)
  obtain r1 where r1: "withdraw db_funded \<lparr>req_amount = 4000\<rparr> alice = (Inr r1, db_withdrawn)"
    using withdraw_ok_example by blast
  from no_overdraft [where db = db_funded and u = alice and payment = "\<lparr>req_amount = 4000\<rparr>"
      and res = "Inr r1" and db' = db_withdrawn and transfer_payment = pay_bob
      and token = "''none''" and q = request_voucher and owner = alice and now = 0
      and amount = None] b(1) r1
  have w: "total_balance db_withdrawn alice = total_balance db_funded alice - 4000 \<and>
           0 \<le> total_balance db_withdrawn alice"
    by simp
  obtain r2 where r2: "transfer db_funded pay_bob alice = (Inr r2, db_paid)"
    using transfer_example by blast
  from no_overdraft [where db = db_funded and u = alice and payment = "\<lparr>req_amount = 4000\<rparr>"
      and res = "Inr r2" and db' = db_paid and transfer_payment = pay_bob
      and token = "''none''" and q = request_voucher and owner = alice and now = 0
      and amount = None] b(1) r2
  have t: "total_balance db_paid alice = total_balance db_funded alice - 5000 \<and>
           0 \<le> total_balance db_paid alice"
    by (simp add: pay_bob_def)
  have q3: "get_by_qr_id db_request ''r1'' = Some request_voucher"
    "qr_type request_voucher = REQUEST_PAYMENT" "qr_amount request_voucher = Some 2000"
    by (simp_all add: get_by_qr_id_def ex_defs)
  obtain r3 where r3: "scan_qrcode 10 db_request ''r1'' alice None = (Inr r3, db_request_paid)"
    using request_example by blast
  from no_overdraft [where db = db_request and u = alice and payment = "\<lparr>req_amount = 4000\<rparr>"
      and res = "Inr r3" and db' = db_request_paid and transfer_payment = pay_bob
      and token = "''r1''" and q = request_voucher and owner = bob and now = 10
      and amount = None] b(2) q3 r3
  have rq: "total_balance db_request_paid alice = total_balance db_request alice - 2000 \<and>
            0 \<le> total_balance db_request_paid alice"
    by simp
  have q4: "get_by_qr_id db_issued ''u1'' = Some (send_voucher 1 ''u1'' 60000000 alice)"
    "qrcode_user db_issued (send_voucher 1 ''u1'' 60000000 alice) = Some alice"
    "qr_type (send_voucher 1 ''u1'' 60000000 alice) = SEND_PAYMENT"
    by (simp_all add: get_by_qr_id_def qrcode_user_def ex_defs)
  obtain r4 where r4: "scan_qrcode 10 db_issued ''u1'' bob (Some 3000) = (Inr r4, db_used)"
    using scan_example by blast
  from no_overdraft [where db = db_issued and u = bob and payment = "\<lparr>req_amount = 4000\<rparr>"
      and res = "Inr r4" and db' = db_used and transfer_payment = pay_bob
      and token = "''u1''" and q = "send_voucher 1 ''u1'' 60000000 alice" and owner = alice
      and now = 10 and amount = "Some 3000"] b(3) q4 r4
  have sd: "total_balance db_used alice = total_balance db_issued alice - 3000 \<and>
            0 \<le> total_balance db_used alice"
    by simp
  from b w t rq sd q3(1) q4(1,2) withdraw_example withdraw_ok_example transfer_example
    request_example scan_example
  show ?thesis by blast
qed

section \<open>Voucher use bound\<close>

subsection \<open>The use count of a stored voucher\<close>

lemma find_distinct_key:
  "distinct (map f xs) \<Longrightarrow> x \<in> set xs \<Longrightarrow> find (\<lambda>y. f y = f x) xs = Some x"
  by (induction xs) (auto simp: image_iff)

lemma sql_where_eq_Some: "sql_where (sql_eq a (Some i)) \<longleftrightarrow> a = Some i"
  by (auto simp: sql_where_def sql_eq_def split: option.splits)

lemma sql_where_eq_None: "\<not> sql_where (sql_eq a None)"
  by (auto simp: sql_where_def sql_eq_def split: option.splits)

lemma get_by_qr_id_member: "get_by_qr_id db token = Some q \<Longrightarrow> q \<in> set (qrcodes db)"
  unfolding get_by_qr_id_def by (auto simp: find_Some_iff)

lemma primary_key_Some:
  "qrcode_primary_key db \<Longrightarrow> q \<in> set (qrcodes db) \<Longrightarrow> \<exists>i. qr_pk q = Some i"
  unfolding qrcode_primary_key_def by (auto simp: list_all_iff split: option.splits)

lemma qrcode_primary_key_same:
  "qrcodes db' = qrcodes db \<Longrightarrow> qrcode_seq db' = qrcode_seq db \<Longrightarrow>
   qrcode_primary_key db' = qrcode_primary_key db"
  by (simp add: qrcode_primary_key_def cong: option.case_cong)

lemma current_use_count_stored:
  assumes "qrcode_primary_key db" and "q \<in> set (qrcodes db)"
  shows "current_use_count db q =
           int (length (filter (\<lambda>t. tx_qr_id t = qr_pk q \<and> tx_user_id t = qr_user_id q)
                          (transactions db)))"
proof -
  from assms obtain i where i: "qr_pk q = Some i" by (auto dest: primary_key_Some)
  from assms(1) have "distinct (map qr_pk (qrcodes db))"
    by (simp add: qrcode_primary_key_def)
  from find_distinct_key [OF this assms(2)] i
  have "find (\<lambda>q'. sql_where (sql_eq (qr_pk q') (qr_pk q))) (qrcodes db) = Some q"
    by (simp add: sql_where_eq_Some)
  with i show ?thesis
    by (simp add: current_use_count_def sql_where_eq_Some Let_def)
qed

lemma current_use_count_other:
  assumes "transactions db' = transactions db @ [s, t]" and "qrcodes db' = qrcodes db"
    and "tx_qr_id s \<noteq> qr_pk q2" and "tx_qr_id t \<noteq> qr_pk q2"
  shows "current_use_count db' q2 = current_use_count db q2"
proof (cases "qr_pk q2")
  case None
  then show ?thesis using assms by (simp add: current_use_count_def sql_where_eq_None Let_def)
next
  case (Some j)
  then show ?thesis using assms by (simp add: current_use_count_def sql_where_eq_Some Let_def)
qed

lemma scan_qrcode_use_count:
  assumes wf: "qrcode_primary_key db"
    and q: "get_by_qr_id db token = Some q"
    and ok: "scan_qrcode now db token u amount = (Inr r, db')"
  shows "current_use_count db' q = current_use_count db q + 1"
proof -
  from q have mem: "q \<in> set (qrcodes db)" by (rule get_by_qr_id_member)
  have "\<exists>s t. transactions db' = transactions db @ [s, t] \<and>
          qrcodes db' = qrcodes db \<and> qrcode_seq db' = qrcode_seq db \<and>
          tx_qr_id s = qr_pk q \<and> tx_qr_id t = qr_pk q \<and>
          (tx_user_id s = qr_user_id q \<and> tx_user_id t \<noteq> qr_user_id q \<or>
           tx_user_id s \<noteq> qr_user_id q \<and> tx_user_id t = qr_user_id q)"
  proof (cases "qr_type q")
    case REQUEST_PAYMENT
    from scan_request_Inr [OF ok q this] show ?thesis
      by (auto dest!: qrcode_user_pk)
  next
    case SEND_PAYMENT
    from scan_send_Inr [OF ok q this] show ?thesis
      by (auto dest!: qrcode_user_pk)
  qed
  then obtain s t where st: "transactions db' = transactions db @ [s, t]"
    "qrcodes db' = qrcodes db" "qrcode_seq db' = qrcode_seq db"
    "tx_qr_id s = qr_pk q" "tx_qr_id t = qr_pk q"
    "tx_user_id s = qr_user_id q \<and> tx_user_id t \<noteq> qr_user_id q \<or>
     tx_user_id s \<noteq> qr_user_id q \<and> tx_user_id t = qr_user_id q"
    by blast
  from wf qrcode_primary_key_same [OF st(2,3)] have wf': "qrcode_primary_key db'" by simp
  from mem st(2) have mem': "q \<in> set (qrcodes db')" by simp
  from st show ?thesis
    unfolding current_use_count_stored [OF wf mem] current_use_count_stored [OF wf' mem']
    by auto
qed

subsection \<open>Every handler keeps the primary key\<close>

lemma qrcode_primary_key_empty: "qrcode_primary_key db_empty"
  by (simp add: qrcode_primary_key_def db_empty_def)

lemma qrcode_primary_key_clean:
  assumes "qrcode_primary_key db"
  shows "qrcode_primary_key (snd (clean_unused_send_qrcodes db))"
  using assms
  by (auto simp: qrcode_primary_key_def clean_unused_send_qrcodes_def distinct_map_filter
      list_all_iff cong: option.case_cong)

lemma qrcode_primary_key_commit_qrcode:
  assumes "qrcode_primary_key db"
  shows "qrcode_primary_key (fst (commit_qrcode db q))"
proof -
  from assms have "Some (Suc (qrcode_seq db)) \<notin> set (map qr_pk (qrcodes db))"
    by (auto simp: qrcode_primary_key_def list_all_iff split: option.splits)
  with assms show ?thesis
    by (auto simp: qrcode_primary_key_def commit_qrcode_def Let_def list_all_iff
        split: option.splits)
qed

lemma qrcode_primary_key_qrcode_send:
  assumes "qrcode_primary_key db"
  shows "qrcode_primary_key (snd (qrcode_send now uuid origin db current_user))"
proof -
  have "snd (qrcode_send now uuid origin db current_user) =
        fst (commit_qrcode (snd (clean_unused_send_qrcodes db))
          \<lparr>qr_pk = None, qr_id = uuid, qr_type = SEND_PAYMENT, max_use_count = Some 1,
           qr_amount = None, expire = Some (now + timedelta_minutes 1),
           qr_user_id = user_pk current_user\<rparr>)"
    by (simp add: qrcode_send_def Let_def split: prod.splits)
  with assms show ?thesis
    by (simp add: qrcode_primary_key_clean qrcode_primary_key_commit_qrcode)
qed

lemma qrcode_primary_key_qrcode_request:
  assumes "qrcode_primary_key db"
  shows "qrcode_primary_key
           (snd (qrcode_request now uuid qr_alive_delta origin db collect current_user))"
proof -
  have "snd (qrcode_request now uuid qr_alive_delta origin db collect current_user) =
        fst (commit_qrcode db
          \<lparr>qr_pk = None, qr_id = uuid, qr_type = REQUEST_PAYMENT,
           max_use_count = Some (max_user_count collect),
           qr_amount = Some (req_amount collect),
           expire = Some (min (case req_expire collect of Some e \<Rightarrow> e
                               | None \<Rightarrow> now + qr_alive_delta) (now + qr_alive_delta)),
           qr_user_id = user_pk current_user\<rparr>)"
    by (simp add: qrcode_request_def Let_def case_prod_beta)
  with assms show ?thesis
    by (simp add: qrcode_primary_key_commit_qrcode)
qed

lemma topup_keeps_vouchers:
  "qrcodes (snd (topup db payment u)) = qrcodes db \<and>
   qrcode_seq (snd (topup db payment u)) = qrcode_seq db"
  by (simp add: topup_outcome topup_try_def Let_def commit_transactions_one)

lemma withdraw_keeps_vouchers:
  "qrcodes (snd (withdraw db payment u)) = qrcodes db \<and>
   qrcode_seq (snd (withdraw db payment u)) = qrcode_seq db"
proof (cases "fst (withdraw db payment u)")
  case (Inl e)
  then have "withdraw db payment u = (Inl e, snd (withdraw db payment u))"
    by (metis prod.collapse)
  from withdraw_Inl [OF this] show ?thesis by simp
next
  case (Inr r)
  then have "withdraw db payment u = (Inr r, snd (withdraw db payment u))"
    by (metis prod.collapse)
  from withdraw_Inr [OF this] show ?thesis by auto
qed

lemma transfer_keeps_vouchers:
  "qrcodes (snd (transfer db payment u)) = qrcodes db \<and>
   qrcode_seq (snd (transfer db payment u)) = qrcode_seq db"
proof (cases "fst (transfer db payment u)")
  case (Inl e)
  then have "transfer db payment u = (Inl e, snd (transfer db payment u))"
    by (metis prod.collapse)
  from transfer_Inl [OF this] show ?thesis by simp
next
  case (Inr r)
  then have "transfer db payment u = (Inr r, snd (transfer db payment u))"
    by (metis prod.collapse)
  from transfer_Inr [OF this] show ?thesis by auto
qed

lemma scan_qrcode_keeps_vouchers:
  "qrcodes (snd (scan_qrcode now db token u amount)) = qrcodes db \<and>
   qrcode_seq (snd (scan_qrcode now db token u amount)) = qrcode_seq db"
proof (cases "fst (scan_qrcode now db token u amount)")
  case (Inl e)
  then have "scan_qrcode now db token u amount =
               (Inl e, snd (scan_qrcode now db token u amount))"
    by (metis prod.collapse)
  from scan_qrcode_Inl [OF this] show ?thesis by simp
next
  case (Inr r)
  then have ok: "scan_qrcode now db token u amount =
                   (Inr r, snd (scan_qrcode now db token u amount))"
    by (metis prod.collapse)
  then obtain q where q: "get_by_qr_id db token = Some q"
    by (auto dest: scan_qrcode_Inr_found)
  show ?thesis
  proof (cases "qr_type q")
    case REQUEST_PAYMENT
    from scan_request_Inr [OF ok q this] show ?thesis by auto
  next
    case SEND_PAYMENT
    from scan_send_Inr [OF ok q this] show ?thesis by auto
  qed
qed

lemma qrcode_primary_key_invariant:
  assumes "qrcode_primary_key db"
  shows "qrcode_primary_key (snd (topup db payment u))"
    and "qrcode_primary_key (snd (withdraw db payment u))"
    and "qrcode_primary_key (snd (transfer db transfer_payment u))"
    and "qrcode_primary_key (snd (scan_qrcode now db token u amount))"
    and "qrcode_primary_key (snd (qrcode_request now uuid qr_alive_delta origin db collect u))"
    and "qrcode_primary_key (snd (qrcode_send now uuid origin db u))"
proof -
  show "qrcode_primary_key (snd (topup db payment u))"
    using assms topup_keeps_vouchers [of db payment u]
      qrcode_primary_key_same [of "snd (topup db payment u)" db] by simp
  show "qrcode_primary_key (snd (withdraw db payment u))"
    using assms withdraw_keeps_vouchers [of db payment u]
      qrcode_primary_key_same [of "snd (withdraw db payment u)" db] by simp
  show "qrcode_primary_key (snd (transfer db transfer_payment u))"
    using assms transfer_keeps_vouchers [of db transfer_payment u]
      qrcode_primary_key_same [of "snd (transfer db transfer_payment u)" db] by simp
  show "qrcode_primary_key (snd (scan_qrcode now db token u amount))"
    using assms scan_qrcode_keeps_vouchers [of now db token u amount]
      qrcode_primary_key_same [of "snd (scan_qrcode now db token u amount)" db] by simp
  show "qrcode_primary_key (snd (qrcode_request now uuid qr_alive_delta origin db collect u))"
    using assms by (rule qrcode_primary_key_qrcode_request)
  show "qrcode_primary_key (snd (qrcode_send now uuid origin db u))"
    using assms by (rule qrcode_primary_key_qrcode_send)
qed

text \<open>
  C4.  In a store that keeps the voucher table's primary key, a redemption of the voucher
  \<open>q\<close> with \<^verbatim>\<open>max_use_count = k\<close> commits only when the use count read before it is
  strictly below \<open>k\<close>; its two entries raise the count by exactly one, so the count at
  the commit is at most \<open>k\<close>; and the count of every voucher with another id is as
  before.
\<close>

theorem voucher_use_bound:
  assumes "qrcode_primary_key db"
    and "get_by_qr_id db token = Some q"
    and "max_use_count q = Some k"
    and "scan_qrcode now db token u amount = (Inr r, db')"
  shows "current_use_count db q < k \<and>
         current_use_count db' q = current_use_count db q + 1 \<and>
         current_use_count db' q \<le> k \<and>
         (\<forall>q2. qr_pk q2 \<noteq> qr_pk q \<longrightarrow> current_use_count db' q2 = current_use_count db q2)"
proof -
  from scan_qrcode_Inr_found [OF assms(4)] assms(2,3)
  have below: "current_use_count db q < k"
    by (auto simp: is_exceed_limit_def Let_def)
  have step: "current_use_count db' q = current_use_count db q + 1"
    using assms(1,2,4) by (rule scan_qrcode_use_count)
  have others: "current_use_count db' q2 = current_use_count db q2" if "qr_pk q2 \<noteq> qr_pk q" for q2
  proof (cases "qr_type q")
    case REQUEST_PAYMENT
    from scan_request_Inr [OF assms(4,2) this] that show ?thesis
      by (auto intro!: current_use_count_other)
  next
    case SEND_PAYMENT
    from scan_send_Inr [OF assms(4,2) this] that show ?thesis
      by (auto intro!: current_use_count_other)
  qed
  from below step others show ?thesis by auto
qed

theorem voucher_use_bound_witness:
  "qrcode_primary_key db_issued \<and>
   get_by_qr_id db_issued ''u1'' = Some (send_voucher 1 ''u1'' 60000000 alice) \<and>
   max_use_count (send_voucher 1 ''u1'' 60000000 alice) = Some 1 \<and>
   (\<exists>r. scan_qrcode 10 db_issued ''u1'' bob (Some 3000) = (Inr r, db_used)) \<and>
   current_use_count db_issued (send_voucher 1 ''u1'' 60000000 alice) = 0 \<and>
   current_use_count db_used (send_voucher 1 ''u1'' 60000000 alice) = 1"
proof -
  obtain r where r: "scan_qrcode 10 db_issued ''u1'' bob (Some 3000) = (Inr r, db_used)"
    using scan_example by blast
  have wf: "qrcode_primary_key db_issued"
    by (simp add: qrcode_primary_key_def ex_defs)
  have q: "get_by_qr_id db_issued ''u1'' = Some (send_voucher 1 ''u1'' 60000000 alice)"
    by (simp add: get_by_qr_id_def ex_defs)
  have m: "max_use_count (send_voucher 1 ''u1'' 60000000 alice) = Some 1"
    by (simp add: send_voucher_def)
  have c: "current_use_count db_issued (send_voucher 1 ''u1'' 60000000 alice) = 0"
    by (simp add: current_use_count_def sql_defs ex_defs)
  from voucher_use_bound [OF wf q m r] c
  have "current_use_count db_used (send_voucher 1 ''u1'' 60000000 alice) = 1" by simp
  with wf q m c scan_example show ?thesis by blast
qed

section \<open>Top-up with a non-positive amount\<close>

lemma topup_invalid_amount:
  "req_amount payment \<le> 0 \<Longrightarrow>
     topup_try db payment current_user =
       Inl (InvalidAmountException ''Top-up amount must be greater than zero'') \<and>
     topup db payment current_user = (Inl MissingGreenlet, db)"
  by (simp add: topup_outcome topup_try_def)

lemma withdraw_invalid_amount:
  "req_amount payment \<le> 0 \<Longrightarrow>
     withdraw db payment current_user = (Inl MissingGreenlet, db)"
  by (simp add: withdraw_outcome withdraw_try_def)

lemma transfer_invalid_amount:
  "req_amount payment \<le> 0 \<Longrightarrow>
     transfer db payment current_user =
       (Inl (InvalidAmountException ''Transfer amount must be greater than zero''), db)"
  by (simp add: transfer_def transfer_try_def reraise_def rollback_def)

text \<open>
  C5.  \<^verbatim>\<open>topup\<close> with an amount of zero or below appends no ledger entry, and its body
  raises \<^verbatim>\<open>InvalidAmountException\<close>; but that is not the error that leaves the handler.
  The \<^verbatim>\<open>except\<close> clause rolls back and then reads \<^verbatim>\<open>current_user.username\<close> for its log
  line, which raises \<^verbatim>\<open>MissingGreenlet\<close>.  \<^verbatim>\<open>transfer\<close>, which logs before it rolls back and
  then re-raises, hands the caller its \<^verbatim>\<open>InvalidAmountException\<close> on the same amount.
\<close>

theorem topup_masks_invalid_amount:
  "topup_try db \<lparr>req_amount = 0\<rparr> current_user =
     Inl (InvalidAmountException ''Top-up amount must be greater than zero'') \<and>
   topup db \<lparr>req_amount = 0\<rparr> current_user = (Inl MissingGreenlet, db) \<and>
   topup db \<lparr>req_amount = - 100\<rparr> current_user = (Inl MissingGreenlet, db) \<and>
   transfer db \<lparr>req_amount = 0, recipient_username = name, req_description = description\<rparr>
       current_user =
     (Inl (InvalidAmountException ''Transfer amount must be greater than zero''), db)"
  by (simp add: topup_invalid_amount transfer_invalid_amount)

section \<open>Self-payment\<close>

lemma transfer_self:
  assumes "get_by_username db (recipient_username payment) = Some recipient"
    and "user_pk recipient = user_pk u"
  shows "transfer db payment u =
           (Inl (if req_amount payment \<le> 0
                 then InvalidAmountException ''Transfer amount must be greater than zero''
                 else InvalidAmountException ''Cannot transfer to yourself''), db)"
  using assms by (simp add: transfer_def transfer_try_def reraise_def rollback_def Let_def)

lemma scan_qrcode_self:
  assumes "get_by_qr_id db token = Some q" and "qrcode_user db q = Some owner"
    and "user_pk owner = user_pk u"
  shows "scan_qrcode now db token u amount =
           (Inl (if is_expired now q then
                   TransactionNotFoundException ''QR code has expired or is invalid''
                 else case is_exceed_limit db q of
                   Inl e \<Rightarrow> e
                 | Inr True \<Rightarrow>
                     TransactionNotFoundException ''QR code has reached its maximum usage limit''
                 | Inr False \<Rightarrow>
                    (case qr_type q of
                       REQUEST_PAYMENT \<Rightarrow>
                        (case qr_amount q of
                           None \<Rightarrow> InvalidAmountException ''QR code has invalid amount''
                         | Some a \<Rightarrow>
                             if a \<le> 0 then InvalidAmountException ''QR code has invalid amount''
                             else InvalidAmountException ''Cannot transfer to yourself'')
                     | SEND_PAYMENT \<Rightarrow>
                        (case amount of
                           None \<Rightarrow> InvalidAmountException
                                     ''Amount must be specified and greater than zero''
                         | Some a \<Rightarrow>
                             if a \<le> 0 then InvalidAmountException
                                              ''Amount must be specified and greater than zero''
                             else InvalidAmountException ''Cannot transfer to yourself''))), db)"
  using assms
  by (simp add: scan_qrcode_def scan_qrcode_try_def reraise_def rollback_def Let_def
      split: sum.splits bool.splits QRType.splits option.splits)

lemma scan_qrcode_self_checked:
  assumes "get_by_qr_id db token = Some q" and "qrcode_user db q = Some owner"
    and "user_pk owner = user_pk u"
    and "\<not> is_expired now q" and "is_exceed_limit db q = Inr False"
    and "case qr_type q of REQUEST_PAYMENT \<Rightarrow> (\<exists>a. qr_amount q = Some a \<and> 0 < a)
         | SEND_PAYMENT \<Rightarrow> (\<exists>a. amount = Some a \<and> 0 < a)"
  shows "scan_qrcode now db token u amount =
           (Inl (InvalidAmountException ''Cannot transfer to yourself''), db)"
  using assms
  by (auto simp: scan_qrcode_def scan_qrcode_try_def reraise_def rollback_def Let_def
      split: QRType.splits)

text \<open>
  C6 (as amended).  A \<^verbatim>\<open>transfer\<close> whose recipient is the caller, and a \<^verbatim>\<open>scan_qrcode\<close> of a
  voucher the caller owns, always raise and leave the store as it was.  The exception is
  \<^verbatim>\<open>InvalidAmountException("Cannot transfer to yourself")\<close> whenever the checks made
  before the self-payment check pass: a positive amount for a transfer; for a redemption
  a voucher that is not expired and below its limit, and a positive amount.  Otherwise it
  is the exception of the first earlier check that fails.  For a transfer that is
  \<^verbatim>\<open>InvalidAmountException("Transfer amount must be greater than zero")\<close>.  For a
  redemption it is, in this order:
  \<^verbatim>\<open>TransactionNotFoundException("QR code has expired or is invalid")\<close> for an expired
  voucher; what \<^verbatim>\<open>is_exceed_limit\<close> itself raises;
  \<^verbatim>\<open>TransactionNotFoundException("QR code has reached its maximum usage limit")\<close> for an
  exhausted one; and for an amount that is missing or not positive,
  \<^verbatim>\<open>InvalidAmountException("QR code has invalid amount")\<close> on a request voucher and
  \<^verbatim>\<open>InvalidAmountException("Amount must be specified and greater than zero")\<close> on a send
  voucher.
\<close>

theorem self_payment_rejected:
  "(get_by_username db (recipient_username payment) = Some recipient \<and>
    user_pk recipient = user_pk u \<longrightarrow>
      transfer db payment u =
        (Inl (if req_amount payment \<le> 0
              then InvalidAmountException ''Transfer amount must be greater than zero''
              else InvalidAmountException ''Cannot transfer to yourself''), db)) \<and>
   (get_by_qr_id db token = Some q \<and> qrcode_user db q = Some owner \<and>
    user_pk owner = user_pk u \<longrightarrow>
      scan_qrcode now db token u amount =
        (Inl (if is_expired now q then
                TransactionNotFoundException ''QR code has expired or is invalid''
              else case is_exceed_limit db q of
                Inl e \<Rightarrow> e
              | Inr True \<Rightarrow>
                  TransactionNotFoundException ''QR code has reached its maximum usage limit''
              | Inr False \<Rightarrow>
                 (case qr_type q of
                    REQUEST_PAYMENT \<Rightarrow>
                     (case qr_amount q of
                        None \<Rightarrow> InvalidAmountException ''QR code has invalid amount''
                      | Some a \<Rightarrow>
                          if a \<le> 0 then InvalidAmountException ''QR code has invalid amount''
                          else InvalidAmountException ''Cannot transfer to yourself'')
                  | SEND_PAYMENT \<Rightarrow>
                     (case amount of
                        None \<Rightarrow> InvalidAmountException
                                  ''Amount must be specified and greater than zero''
                      | Some a \<Rightarrow>
                          if a \<le> 0 then InvalidAmountException
                                           ''Amount must be specified and greater than zero''
                          else InvalidAmountException ''Cannot transfer to yourself''))), db) \<and>
      (\<not> is_expired now q \<and> is_exceed_limit db q = Inr False \<and>
       (case qr_type q of REQUEST_PAYMENT \<Rightarrow> (\<exists>a. qr_amount q = Some a \<and> 0 < a)
        | SEND_PAYMENT \<Rightarrow> (\<exists>a. amount = Some a \<and> 0 < a)) \<longrightarrow>
         scan_qrcode now db token u amount =
           (Inl (InvalidAmountException ''Cannot transfer to yourself''), db)))"
  using transfer_self [of db payment recipient u]
    scan_qrcode_self [of db token q owner u now amount]
    scan_qrcode_self_checked [of db token q owner u now amount]
  by blast

text \<open>
  With a non-positive amount, or an expired voucher, the self-payment is refused by the
  earlier check and with that check's exception; with a positive amount the exception is
  of the class \<^verbatim>\<open>InvalidAmountException\<close>, the one a bad amount raises.
\<close>

theorem self_payment_error_counterexample:
  "get_by_username db_funded (recipient_username (pay_self 0)) = Some alice \<and>
   transfer db_funded (pay_self 0) alice =
     (Inl (InvalidAmountException ''Transfer amount must be greater than zero''), db_funded) \<and>
   transfer db_funded (pay_self 5000) alice =
     (Inl (InvalidAmountException ''Cannot transfer to yourself''), db_funded) \<and>
   get_by_qr_id db_used ''u1'' = Some (send_voucher 1 ''u1'' 60000000 alice) \<and>
   qrcode_user db_used (send_voucher 1 ''u1'' 60000000 alice) = Some alice \<and>
   scan_qrcode 70000000 db_used ''u1'' alice (Some 3000) =
     (Inl (TransactionNotFoundException ''QR code has expired or is invalid''), db_used)"
  by (simp add: transfer_def transfer_try_def scan_qrcode_def scan_qrcode_try_def reraise_def
      rollback_def get_by_username_def get_by_qr_id_def qrcode_user_def is_expired_def
      ex_defs Let_def)

theorem self_payment_rejected_witness:
  "get_by_username db_funded (recipient_username (pay_self 5000)) = Some alice \<and>
   transfer db_funded (pay_self 5000) alice =
     (Inl (InvalidAmountException ''Cannot transfer to yourself''), db_funded) \<and>
   get_by_username db_funded (recipient_username (pay_self 0)) = Some alice \<and>
   transfer db_funded (pay_self 0) alice =
     (Inl (InvalidAmountException ''Transfer amount must be greater than zero''), db_funded) \<and>
   get_by_qr_id db_issued ''u1'' = Some (send_voucher 1 ''u1'' 60000000 alice) \<and>
   qrcode_user db_issued (send_voucher 1 ''u1'' 60000000 alice) = Some alice \<and>
   \<not> is_expired 10 (send_voucher 1 ''u1'' 60000000 alice) \<and>
   is_exceed_limit db_issued (send_voucher 1 ''u1'' 60000000 alice) = Inr False \<and>
   scan_qrcode 10 db_issued ''u1'' alice (Some 3000) =
     (Inl (InvalidAmountException ''Cannot transfer to yourself''), db_issued) \<and>
   scan_qrcode 10 db_issued ''u1'' alice None =
     (Inl (InvalidAmountException ''Amount must be specified and greater than zero''),
      db_issued) \<and>
   get_by_qr_id db_used ''u1'' = Some (send_voucher 1 ''u1'' 60000000 alice) \<and>
   qrcode_user db_used (send_voucher 1 ''u1'' 60000000 alice) = Some alice \<and>
   is_exceed_limit db_used (send_voucher 1 ''u1'' 60000000 alice) = Inr True \<and>
   scan_qrcode 10 db_used ''u1'' alice (Some 3000) =
     (Inl (TransactionNotFoundException ''QR code has reached its maximum usage limit''),
      db_used) \<and>
   is_expired 70000000 (send_voucher 1 ''u1'' 60000000 alice) \<and>
   scan_qrcode 70000000 db_used ''u1'' alice (Some 3000) =
     (Inl (TransactionNotFoundException ''QR code has expired or is invalid''), db_used)"
proof -
  have g: "get_by_username db_funded (recipient_username (pay_self 5000)) = Some alice"
    "get_by_username db_funded (recipient_username (pay_self 0)) = Some alice"
    by (simp_all add: get_by_username_def ex_defs)
  have q: "get_by_qr_id db_issued ''u1'' = Some (send_voucher 1 ''u1'' 60000000 alice)"
    "get_by_qr_id db_used ''u1'' = Some (send_voucher 1 ''u1'' 60000000 alice)"
    by (simp_all add: get_by_qr_id_def ex_defs)
  have o: "qrcode_user db_issued (send_voucher 1 ''u1'' 60000000 alice) = Some alice"
    "qrcode_user db_used (send_voucher 1 ''u1'' 60000000 alice) = Some alice"
    by (simp_all add: qrcode_user_def ex_defs)
  have x: "\<not> is_expired 10 (send_voucher 1 ''u1'' 60000000 alice)"
    "is_expired 70000000 (send_voucher 1 ''u1'' 60000000 alice)"
    by (simp_all add: is_expired_def send_voucher_def)
  have l: "is_exceed_limit db_issued (send_voucher 1 ''u1'' 60000000 alice) = Inr False"
    "is_exceed_limit db_used (send_voucher 1 ''u1'' 60000000 alice) = Inr True"
    by (simp_all add: is_exceed_limit_def current_use_count_def sql_defs ex_defs)
  have a: "req_amount (pay_self 5000) = 5000" "req_amount (pay_self 0) = 0"
       "qr_type (send_voucher 1 ''u1'' 60000000 alice) = SEND_PAYMENT"
    by (simp_all add: pay_self_def send_voucher_def)
  from self_payment_rejected [where db = db_funded and payment = "pay_self 5000"
      and recipient = alice and u = alice and token = "''none''" and q = undefined
      and owner = alice and now = 0 and amount = None] g a
  have t1: "transfer db_funded (pay_self 5000) alice =
     (Inl (InvalidAmountException ''Cannot transfer to yourself''), db_funded)"
    by simp
  from self_payment_rejected [where db = db_funded and payment = "pay_self 0"
      and recipient = alice and u = alice and token = "''none''" and q = undefined
      and owner = alice and now = 0 and amount = None] g a
  have t2: "transfer db_funded (pay_self 0) alice =
     (Inl (InvalidAmountException ''Transfer amount must be greater than zero''), db_funded)"
    by simp
  from self_payment_rejected [where db = db_issued and payment = "pay_self 5000"
      and recipient = alice and u = alice and token = "''u1''"
      and q = "send_voucher 1 ''u1'' 60000000 alice"
      and owner = alice and now = 10 and amount = "Some 3000"] q o x l a
  have s1: "scan_qrcode 10 db_issued ''u1'' alice (Some 3000) =
     (Inl (InvalidAmountException ''Cannot transfer to yourself''), db_issued)"
    by simp
  from self_payment_rejected [where db = db_issued and payment = "pay_self 5000"
      and recipient = alice and u = alice and token = "''u1''"
      and q = "send_voucher 1 ''u1'' 60000000 alice"
      and owner = alice and now = 10 and amount = None] q o x l a
  have s2: "scan_qrcode 10 db_issued ''u1'' alice None =
     (Inl (InvalidAmountException ''Amount must be specified and greater than zero''),
      db_issued)"
    by simp
  from self_payment_rejected [where db = db_used and payment = "pay_self 5000"
      and recipient = alice and u = alice and token = "''u1''"
      and q = "send_voucher 1 ''u1'' 60000000 alice"
      and owner = alice and now = 10 and amount = "Some 3000"] q o x l a
  have s3: "scan_qrcode 10 db_used ''u1'' alice (Some 3000) =
     (Inl (TransactionNotFoundException ''QR code has reached its maximum usage limit''),
      db_used)"
    by simp
  from self_payment_rejected [where db = db_used and payment = "pay_self 5000"
      and recipient = alice and u = alice and token = "''u1''"
      and q = "send_voucher 1 ''u1'' 60000000 alice"
      and owner = alice and now = 70000000 and amount = "Some 3000"] q o x l a
  have s4: "scan_qrcode 70000000 db_used ''u1'' alice (Some 3000) =
     (Inl (TransactionNotFoundException ''QR code has expired or is invalid''), db_used)"
    by simp
  from g q o x l t1 t2 s1 s2 s3 s4 show ?thesis by blast
qed

section \<open>Pruning unused send vouchers\<close>

lemma sql_in_no_null:
  assumes "None \<notin> set bs"
  shows "sql_in (Some i) bs = Some (Some i \<in> set bs)"
proof -
  from assms have "map (sql_eq (Some i)) bs = map (\<lambda>b. Some (Some i = b)) bs"
  proof (intro map_cong refl)
    fix b assume "b \<in> set bs"
    with assms obtain j where "b = Some j" by (cases b) auto
    then show "sql_eq (Some i) b = Some (Some i = b)" by (simp add: sql_eq_def)
  qed
  then show ?thesis by (auto simp: sql_in_def image_iff)
qed

lemma sql_in_null:
  assumes "None \<in> set bs"
  shows "sql_in a bs \<noteq> Some False"
proof -
  from assms have "sql_eq a None \<in> set (map (sql_eq a) bs)" by (simp add: image_iff) blast
  then have "None \<in> set (map (sql_eq a) bs)" by (simp add: sql_eq_def split: option.splits)
  then show ?thesis by (simp add: sql_in_def)
qed

lemma unused_send_qrcode_no_null:
  assumes "None \<notin> set (map tx_qr_id (transactions db))" and "qr_pk q = Some i"
  shows "unused_send_qrcode db q \<longleftrightarrow>
           qr_type q = SEND_PAYMENT \<and> qr_pk q \<notin> set (map tx_qr_id (transactions db))"
  using sql_in_no_null [OF assms(1), of i] assms(2)
  by (simp add: unused_send_qrcode_def sql_not_def sql_where_def)

lemma unused_send_qrcode_null:
  assumes "None \<in> set (map tx_qr_id (transactions db))"
  shows "\<not> unused_send_qrcode db q"
  using sql_in_null [OF assms, of "qr_pk q"]
  by (cases "sql_in (qr_pk q) (map tx_qr_id (transactions db))")
     (auto simp: unused_send_qrcode_def sql_not_def sql_where_def)

lemma qrcode_send_qrcodes:
  "qrcodes (snd (qrcode_send now uuid origin db current_user)) =
     filter (\<lambda>q. \<not> unused_send_qrcode db q) (qrcodes db) @
     [\<lparr>qr_pk = Some (Suc (qrcode_seq db)), qr_id = uuid, qr_type = SEND_PAYMENT,
       max_use_count = Some 1, qr_amount = None,
       expire = Some (now + timedelta_minutes 1), qr_user_id = user_pk current_user\<rparr>]"
  by (simp add: qrcode_send_def clean_unused_send_qrcodes_def commit_qrcode_def Let_def)

text \<open>
  C7 (as amended).  In a store that keeps the voucher table's primary key and whose ledger
  has no entry with a NULL \<^verbatim>\<open>qr_id\<close>, issuing a send voucher deletes exactly the send
  vouchers whose id no ledger entry refers to, whoever owns them, and then adds the new
  voucher; request vouchers and referenced send vouchers stay.
\<close>

theorem prune_unreferenced_send_vouchers:
  assumes "qrcode_primary_key db"
    and "None \<notin> set (map tx_qr_id (transactions db))"
  shows "qrcodes (snd (qrcode_send now uuid origin db current_user)) =
           filter (\<lambda>q. \<not> (qr_type q = SEND_PAYMENT \<and>
                            qr_pk q \<notin> set (map tx_qr_id (transactions db))))
             (qrcodes db) @
           [\<lparr>qr_pk = Some (Suc (qrcode_seq db)), qr_id = uuid, qr_type = SEND_PAYMENT,
             max_use_count = Some 1, qr_amount = None,
             expire = Some (now + timedelta_minutes 1), qr_user_id = user_pk current_user\<rparr>]"
proof -
  have "filter (\<lambda>q. \<not> unused_send_qrcode db q) (qrcodes db) =
        filter (\<lambda>q. \<not> (qr_type q = SEND_PAYMENT \<and>
                         qr_pk q \<notin> set (map tx_qr_id (transactions db)))) (qrcodes db)"
  proof (rule filter_cong [OF refl])
    fix q assume "q \<in> set (qrcodes db)"
    with assms(1) obtain i where "qr_pk q = Some i" by (auto dest: primary_key_Some)
    from unused_send_qrcode_no_null [OF assms(2) this]
    show "(\<not> unused_send_qrcode db q) =
          (\<not> (qr_type q = SEND_PAYMENT \<and> qr_pk q \<notin> set (map tx_qr_id (transactions db))))"
      by simp
  qed
  then show ?thesis by (simp add: qrcode_send_qrcodes)
qed

text \<open>
  Bob's unused send voucher is deleted when Alice issues hers.
\<close>

theorem prune_other_owner_counterexample:
  "send_voucher 1 ''u1'' 60000000 bob \<in> set (qrcodes db_bob_voucher) \<and>
   current_use_count db_bob_voucher (send_voucher 1 ''u1'' 60000000 bob) = 0 \<and>
   qr_user_id (send_voucher 1 ''u1'' 60000000 bob) \<noteq> user_pk alice \<and>
   send_voucher 1 ''u1'' 60000000 bob \<notin>
     set (qrcodes (snd (qrcode_send 5 ''u2'' None db_bob_voucher alice)))"
  by (simp add: qrcode_send_qrcodes unused_send_qrcode_def current_use_count_def
      timedelta_minutes_def sql_defs ex_defs)

theorem prune_unreferenced_send_vouchers_witness:
  "qrcode_primary_key db_bob_voucher \<and>
   None \<notin> set (map tx_qr_id (transactions db_bob_voucher)) \<and>
   qrcodes (snd (qrcode_send 5 ''u2'' None db_bob_voucher alice)) =
     [send_voucher 2 ''u2'' 60000005 alice]"
proof -
  have wf: "qrcode_primary_key db_bob_voucher"
    by (simp add: qrcode_primary_key_def ex_defs)
  have n: "None \<notin> set (map tx_qr_id (transactions db_bob_voucher))"
    by (simp add: ex_defs)
  from prune_unreferenced_send_vouchers [OF wf n, of 5 "''u2''" None alice]
  have "qrcodes (snd (qrcode_send 5 ''u2'' None db_bob_voucher alice)) =
     [send_voucher 2 ''u2'' 60000005 alice]"
    by (simp add: timedelta_minutes_def ex_defs)
  with wf n show ?thesis by blast
qed

text \<open>
  C8.  If the ledger has an entry whose \<^verbatim>\<open>qr_id\<close> is NULL, \<^verbatim>\<open>clean_unused_send_qrcodes\<close>
  deletes no row (it returns 0 and the store as it was), so issuing a send voucher keeps
  every stored voucher and adds the new one.
\<close>

theorem prune_blocked_by_null_reference:
  assumes "None \<in> set (map tx_qr_id (transactions db))"
  shows "clean_unused_send_qrcodes db = (0, db) \<and>
         qrcodes (snd (qrcode_send now uuid origin db current_user)) =
           qrcodes db @
           [\<lparr>qr_pk = Some (Suc (qrcode_seq db)), qr_id = uuid, qr_type = SEND_PAYMENT,
             max_use_count = Some 1, qr_amount = None,
             expire = Some (now + timedelta_minutes 1), qr_user_id = user_pk current_user\<rparr>]"
proof -
  from assms have keep: "filter (\<lambda>q. \<not> unused_send_qrcode db q) (qrcodes db) = qrcodes db"
    and none: "filter (unused_send_qrcode db) (qrcodes db) = []"
    by (simp_all add: unused_send_qrcode_null)
  then show ?thesis
    by (simp add: qrcode_send_qrcodes clean_unused_send_qrcodes_def)
qed

theorem prune_blocked_by_null_reference_witness:
  "None \<in> set (map tx_qr_id (transactions db_issued)) \<and>
   current_use_count db_issued (send_voucher 1 ''u1'' 60000000 alice) = 0 \<and>
   clean_unused_send_qrcodes db_issued = (0, db_issued) \<and>
   qrcodes (snd (qrcode_send 5 ''u2'' None db_issued bob)) =
     [send_voucher 1 ''u1'' 60000000 alice, send_voucher 2 ''u2'' 60000005 bob] \<and>
   qrcodes (snd (qrcode_send 5 ''u2'' None db_issued alice)) =
     [send_voucher 1 ''u1'' 60000000 alice, send_voucher 2 ''u2'' 60000005 alice]"
proof -
  have n: "None \<in> set (map tx_qr_id (transactions db_issued))"
    by (simp add: ex_defs)
  have c: "current_use_count db_issued (send_voucher 1 ''u1'' 60000000 alice) = 0"
    by (simp add: current_use_count_def sql_defs ex_defs)
  from prune_blocked_by_null_reference [OF n, of 5 "''u2''" None bob]
  have b: "clean_unused_send_qrcodes db_issued = (0, db_issued)"
    "qrcodes (snd (qrcode_send 5 ''u2'' None db_issued bob)) =
     [send_voucher 1 ''u1'' 60000000 alice, send_voucher 2 ''u2'' 60000005 bob]"
    by (simp_all add: timedelta_minutes_def ex_defs)
  from prune_blocked_by_null_reference [OF n, of 5 "''u2''" None alice]
  have a: "qrcodes (snd (qrcode_send 5 ''u2'' None db_issued alice)) =
     [send_voucher 1 ''u1'' 60000000 alice, send_voucher 2 ''u2'' 60000005 alice]"
    by (simp add: timedelta_minutes_def ex_defs)
  from n c a b show ?thesis by blast
qed

section \<open>Refusing an unusable voucher\<close>

lemma scan_qrcode_expired:
  assumes "get_by_qr_id db token = Some q" and "is_expired now q"
  shows "scan_qrcode now db token u amount =
           (Inl (TransactionNotFoundException ''QR code has expired or is invalid''), db)"
  using assms by (simp add: scan_qrcode_def scan_qrcode_try_def reraise_def rollback_def)

lemma scan_qrcode_exhausted:
  assumes "get_by_qr_id db token = Some q" and "\<not> is_expired now q"
    and "max_use_count q = Some k" and "k \<le> current_use_count db q"
  shows "scan_qrcode now db token u amount =
           (Inl (TransactionNotFoundException
                   ''QR code has reached its maximum usage limit''), db)"
  using assms
  by (simp add: scan_qrcode_def scan_qrcode_try_def reraise_def rollback_def
      is_exceed_limit_def Let_def)

text \<open>
  C9 (as amended).  A redemption of an expired voucher and a redemption of an exhausted
  one both raise \<^verbatim>\<open>TransactionNotFoundException\<close> and leave the store as it was, but
  with different details: \<^verbatim>\<open>QR code has expired or is invalid\<close> when the voucher
  is expired (exhausted or not), \<^verbatim>\<open>QR code has reached its maximum usage limit\<close> when it is
  not expired and its use count has reached \<^verbatim>\<open>max_use_count\<close>.
\<close>

theorem voucher_refusal_detail:
  assumes "get_by_qr_id db token = Some q"
  shows "(is_expired now q \<longrightarrow>
            scan_qrcode now db token u amount =
              (Inl (TransactionNotFoundException ''QR code has expired or is invalid''), db)) \<and>
         (\<not> is_expired now q \<and> max_use_count q = Some k \<and> k \<le> current_use_count db q \<longrightarrow>
            scan_qrcode now db token u amount =
              (Inl (TransactionNotFoundException
                      ''QR code has reached its maximum usage limit''), db))"
  using scan_qrcode_expired [OF assms] scan_qrcode_exhausted [OF assms] by blast

text \<open>
  The same voucher, expired in one run and exhausted in the other: the two responses
  differ, so the caller can tell which it was.
\<close>

theorem voucher_refusal_counterexample:
  "is_expired 70000000 (send_voucher 1 ''u1'' 60000000 alice) \<and>
   current_use_count db_issued (send_voucher 1 ''u1'' 60000000 alice) = 0 \<and>
   \<not> is_expired 20 (send_voucher 1 ''u1'' 60000000 alice) \<and>
   is_exceed_limit db_used (send_voucher 1 ''u1'' 60000000 alice) = Inr True \<and>
   fst (scan_qrcode 70000000 db_issued ''u1'' bob (Some 3000)) =
     Inl (TransactionNotFoundException ''QR code has expired or is invalid'') \<and>
   fst (scan_qrcode 20 db_used ''u1'' bob (Some 3000)) =
     Inl (TransactionNotFoundException ''QR code has reached its maximum usage limit'') \<and>
   fst (scan_qrcode 70000000 db_issued ''u1'' bob (Some 3000)) \<noteq>
     fst (scan_qrcode 20 db_used ''u1'' bob (Some 3000)) \<and>
   fst (scan_qrcode 70000000 db_used ''u1'' bob (Some 3000)) \<noteq>
     fst (scan_qrcode 20 db_used ''u1'' bob (Some 3000))"
  by (simp add: scan_qrcode_def scan_qrcode_try_def reraise_def rollback_def
      get_by_qr_id_def is_expired_def is_exceed_limit_def current_use_count_def
      sql_defs ex_defs Let_def)

theorem voucher_refusal_detail_witness:
  "get_by_qr_id db_used ''u1'' = Some (send_voucher 1 ''u1'' 60000000 alice) \<and>
   is_expired 70000000 (send_voucher 1 ''u1'' 60000000 alice) \<and>
   scan_qrcode 70000000 db_used ''u1'' bob (Some 3000) =
     (Inl (TransactionNotFoundException ''QR code has expired or is invalid''), db_used) \<and>
   \<not> is_expired 20 (send_voucher 1 ''u1'' 60000000 alice) \<and>
   max_use_count (send_voucher 1 ''u1'' 60000000 alice) = Some 1 \<and>
   1 \<le> current_use_count db_used (send_voucher 1 ''u1'' 60000000 alice) \<and>
   scan_qrcode 20 db_used ''u1'' bob (Some 3000) =
     (Inl (TransactionNotFoundException ''QR code has reached its maximum usage limit''),
      db_used)"
proof -
  have q: "get_by_qr_id db_used ''u1'' = Some (send_voucher 1 ''u1'' 60000000 alice)"
    by (simp add: get_by_qr_id_def ex_defs)
  have x: "is_expired 70000000 (send_voucher 1 ''u1'' 60000000 alice)"
    "\<not> is_expired 20 (send_voucher 1 ''u1'' 60000000 alice)"
    by (simp_all add: is_expired_def send_voucher_def)
  have m: "max_use_count (send_voucher 1 ''u1'' 60000000 alice) = Some 1"
    by (simp add: send_voucher_def)
  have c: "1 \<le> current_use_count db_used (send_voucher 1 ''u1'' 60000000 alice)"
    by (simp add: current_use_count_def sql_defs ex_defs)
  from voucher_refusal_detail [OF q, of 70000000 bob "Some 3000" 1] x
  have a: "scan_qrcode 70000000 db_used ''u1'' bob (Some 3000) =
     (Inl (TransactionNotFoundException ''QR code has expired or is invalid''), db_used)"
    by blast
  from voucher_refusal_detail [OF q, of 20 bob "Some 3000" 1] x m c
  have b: "scan_qrcode 20 db_used ''u1'' bob (Some 3000) =
     (Inl (TransactionNotFoundException ''QR code has reached its maximum usage limit''),
      db_used)"
    by blast
  from q x m c a b show ?thesis by blast
qed

section \<open>The public view of a send voucher\<close>

text \<open>
  C10 (as amended).  \<^verbatim>\<open>get_qrcode_by_uuid\<close> on a send voucher returns the public projection
  exactly when the voucher is not past its \<^verbatim>\<open>expire\<close> (\<^verbatim>\<open>can_be_used\<close> is
  \<^verbatim>\<open>not is_expired\<close>), whatever its use count, and raises \<^verbatim>\<open>TransactionNotFoundException\<close>
  when it is past it.
\<close>

theorem public_view_checks_expiry_only:
  assumes "get_by_qr_id db token = Some q" and "qr_type q = SEND_PAYMENT"
  shows "(\<not> is_expired now q \<longrightarrow>
            get_qrcode_by_uuid now db token =
              Inr \<lparr>res_qr_id = qr_id q, res_qr_type = ''send_payment'',
                   res_amount = qr_amount q, res_expire = expire q\<rparr>) \<and>
         (is_expired now q \<longrightarrow>
            get_qrcode_by_uuid now db token =
              Inl (TransactionNotFoundException ''QR code has expired or is invalid''))"
  using assms by (simp add: get_qrcode_by_uuid_def can_be_used_def)

text \<open>
  An unexpired send voucher whose single use is spent is still returned.
\<close>

theorem public_view_exhausted_counterexample:
  "get_by_qr_id db_used ''u1'' = Some (send_voucher 1 ''u1'' 60000000 alice) \<and>
   qr_type (send_voucher 1 ''u1'' 60000000 alice) = SEND_PAYMENT \<and>
   \<not> is_expired 20 (send_voucher 1 ''u1'' 60000000 alice) \<and>
   max_use_count (send_voucher 1 ''u1'' 60000000 alice) = Some 1 \<and>
   current_use_count db_used (send_voucher 1 ''u1'' 60000000 alice) = 1 \<and>
   get_qrcode_by_uuid 20 db_used ''u1'' =
     Inr \<lparr>res_qr_id = ''u1'', res_qr_type = ''send_payment'',
          res_amount = None, res_expire = Some 60000000\<rparr>"
  by (simp add: get_qrcode_by_uuid_def can_be_used_def get_by_qr_id_def is_expired_def
      current_use_count_def sql_defs ex_defs)

theorem public_view_checks_expiry_only_witness:
  "get_by_qr_id db_used ''u1'' = Some (send_voucher 1 ''u1'' 60000000 alice) \<and>
   qr_type (send_voucher 1 ''u1'' 60000000 alice) = SEND_PAYMENT \<and>
   \<not> is_expired 20 (send_voucher 1 ''u1'' 60000000 alice) \<and>
   get_qrcode_by_uuid 20 db_used ''u1'' =
     Inr \<lparr>res_qr_id = ''u1'', res_qr_type = ''send_payment'',
          res_amount = None, res_expire = Some 60000000\<rparr> \<and>
   is_expired 70000000 (send_voucher 1 ''u1'' 60000000 alice) \<and>
   get_qrcode_by_uuid 70000000 db_used ''u1'' =
     Inl (TransactionNotFoundException ''QR code has expired or is invalid'')"
proof -
  have q: "get_by_qr_id db_used ''u1'' = Some (send_voucher 1 ''u1'' 60000000 alice)"
    by (simp add: get_by_qr_id_def ex_defs)
  have t: "qr_type (send_voucher 1 ''u1'' 60000000 alice) = SEND_PAYMENT"
    by (simp add: send_voucher_def)
  have x: "is_expired 70000000 (send_voucher 1 ''u1'' 60000000 alice)"
    "\<not> is_expired 20 (send_voucher 1 ''u1'' 60000000 alice)"
    by (simp_all add: is_expired_def send_voucher_def)
  from public_view_checks_expiry_only [OF q t, of 20] x
  have a: "get_qrcode_by_uuid 20 db_used ''u1'' =
     Inr \<lparr>res_qr_id = ''u1'', res_qr_type = ''send_payment'',
          res_amount = None, res_expire = Some 60000000\<rparr>"
    by (simp add: send_voucher_def)
  from public_view_checks_expiry_only [OF q t, of 70000000] x
  have b: "get_qrcode_by_uuid 70000000 db_used ''u1'' =
     Inl (TransactionNotFoundException ''QR code has expired or is invalid'')"
    by simp
  from q t x a b show ?thesis by blast
qed

end
